theory Spec2Isabelle
  imports Main "HOL-Library.Log_Nat"
begin

section \<open>MediRemind: data model\<close>

text \<open>
  The program (\<^verbatim>\<open>app.py\<close>, with the smaller store of \<^verbatim>\<open>pa.py\<close>) keeps one JSON
  document of medications and appointments. A medication is a dictionary with the keys
  \<^verbatim>\<open>name\<close>, \<^verbatim>\<open>schedule\<close> and, optionally, \<^verbatim>\<open>stock\<close>; the code tests
  \<^verbatim>\<open>'stock' in med\<close>, so the optional key is an \<open>option\<close>. An appointment has the key
  \<^verbatim>\<open>date_time\<close> and is read with \<^verbatim>\<open>appt.get('description', ...)\<close>, so its description
  is optional as well. The three stock fields are Python integers (unbounded); JSON numbers
  with a fraction are outside this model.

  Strings are lists of characters with codes 0 to 255, read as Unicode code points.
\<close>

record stock =
  current_quantity :: int
  consumption_rate :: int
  alert_threshold :: int

record medication =
  name :: string
  schedule :: string
  stock :: "stock option"

record appointment =
  date_time :: string
  description :: "string option"

record document =
  medications :: "medication list"
  appointments :: "appointment list"

text \<open>The literal \<^verbatim>\<open>{"medications": [], "appointments": []}\<close>.\<close>

definition empty_document :: document where
  "empty_document = \<lparr>medications = [], appointments = []\<rparr>"

datatype py_error =
  FileNotFoundError | JSONDecodeError | OSError | ValueError | OverflowError
  | ZeroDivisionError | KeyError | TypeError

section \<open>Validator\<close>

text \<open>
  \<^verbatim>\<open>str.isspace\<close> on the code points below 256: the ASCII controls 9 to 13 and 28 to 31,
  the space, NEL (133) and the no-break space (160). \<^verbatim>\<open>str.strip()\<close> removes such
  characters from both ends.
\<close>

definition isspace :: "char \<Rightarrow> bool" where
  "isspace c = (of_char c \<in> {9, 10, 11, 12, 13, 28, 29, 30, 31, 32, 133, 160 :: nat})"

definition strip :: "string \<Rightarrow> string" where
  "strip s = rev (dropWhile isspace (rev (dropWhile isspace s)))"

text \<open>
  \<^verbatim>\<open>
  def validate_medication(med):
      if not med['name'].strip():
          return False, "Medication name cannot be empty"
      if 'stock' in med:
          if med['stock']['current_quantity'] < 0:
              return False, "Current quantity cannot be negative"
          if med['stock']['consumption_rate'] <= 0:
              return False, "Consumption rate must be positive"
          if med['stock']['alert_threshold'] < 0:
              return False, "Alert threshold cannot be negative"
      return True, ""
  \<close>
\<close>

definition validate_medication :: "medication \<Rightarrow> bool \<times> string" where
  "validate_medication med =
     (if strip (name med) = [] then (False, ''Medication name cannot be empty'')
      else case stock med of
        None \<Rightarrow> (True, '''')
      | Some st \<Rightarrow>
          if current_quantity st < 0 then (False, ''Current quantity cannot be negative'')
          else if consumption_rate st \<le> 0 then (False, ''Consumption rate must be positive'')
          else if alert_threshold st < 0 then (False, ''Alert threshold cannot be negative'')
          else (True, ''''))"

text \<open>
  Timestamps are naive \<^verbatim>\<open>datetime\<close> values: a calendar day, given by its ordinal
  (\<^verbatim>\<open>date.toordinal()\<close>: 1 for 0001-01-01 up to 3652059 for 9999-12-31, the last day a
  \<^verbatim>\<open>datetime\<close> represents), and the microseconds elapsed since midnight. Python compares
  them field by field, which is the lexicographic order on this pair.
\<close>

record datetime =
  day :: int
  usec :: nat

definition dt_less :: "datetime \<Rightarrow> datetime \<Rightarrow> bool" where
  "dt_less a b = (day a < day b \<or> (day a = day b \<and> usec a < usec b))"

definition dt_le :: "datetime \<Rightarrow> datetime \<Rightarrow> bool" where
  "dt_le a b = (dt_less a b \<or> a = b)"

definition max_ordinal :: int where
  "max_ordinal = 3652059"

text \<open>
  \<^verbatim>\<open>datetime.fromisoformat\<close> belongs to the standard library and the syntax it accepts
  differs between Python versions; it is a parameter \<open>fromiso\<close> of the model, \<open>None\<close>
  standing for its \<^verbatim>\<open>ValueError\<close>. The parser \<open>fromisoformat\<close> defined with the reminder
  calculator below is the value this parameter has in the program.

  \<^verbatim>\<open>
  def validate_appointment(appt):
      try:
          datetime.fromisoformat(appt['date_time'])
      except ValueError:
          return False, "Invalid date/time format"
      return True, ""
  \<close>
\<close>

definition validate_appointment ::
  "(string \<Rightarrow> datetime option) \<Rightarrow> appointment \<Rightarrow> bool \<times> string" where
  "validate_appointment fromiso appt =
     (case fromiso (date_time appt) of
        None \<Rightarrow> (False, ''Invalid date/time format'')
      | Some _ \<Rightarrow> (True, ''''))"

section \<open>Reminder calculator\<close>

text \<open>
  \<^verbatim>\<open>datetime.strptime(s, '%H:%M:%S').time()\<close>. The format compiles to the regular expression
  \<^verbatim>\<open>(2[0-3]|[0-1]\d|\d):([0-5]\d|\d):(6[0-1]|[0-5]\d|\d)\<close>, the whole string has to be
  consumed, and a second of 60 or 61 is refused when the \<^verbatim>\<open>datetime\<close> is built. So the
  string is accepted exactly when it is three fields of one or two decimal digits,
  separated by colons, with hour at most 23 and minute and second at most 59. The result
  is the time of day in microseconds since midnight; \<open>None\<close> is the \<^verbatim>\<open>ValueError\<close>.
\<close>

definition is_digit :: "char \<Rightarrow> bool" where
  "is_digit c = (48 \<le> (of_char c :: nat) \<and> (of_char c :: nat) \<le> 57)"

definition digit_val :: "char \<Rightarrow> nat" where
  "digit_val c = of_char c - 48"

fun number_field :: "string \<Rightarrow> nat option" where
  "number_field [a] = (if is_digit a then Some (digit_val a) else None)"
| "number_field [a, b] =
     (if is_digit a \<and> is_digit b then Some (10 * digit_val a + digit_val b) else None)"
| "number_field _ = None"

definition not_colon :: "char \<Rightarrow> bool" where
  "not_colon c = (c \<noteq> CHR '':'')"

definition strptime_hms :: "string \<Rightarrow> nat option" where
  "strptime_hms s =
     (let h = takeWhile not_colon s in
      case dropWhile not_colon s of
        [] \<Rightarrow> None
      | _ # r \<Rightarrow>
          let m = takeWhile not_colon r in
          (case dropWhile not_colon r of
             [] \<Rightarrow> None
           | _ # sec \<Rightarrow>
               (case (number_field h, number_field m, number_field sec) of
                  (Some hh, Some mm, Some ss) \<Rightarrow>
                    if hh \<le> 23 \<and> mm \<le> 59 \<and> ss \<le> 59
                    then Some ((hh * 3600 + mm * 60 + ss) * 1000000)
                    else None
                | _ \<Rightarrow> None)))"

text \<open>
  The clock reading \<^verbatim>\<open>datetime.now()\<close> is the parameter \<open>now\<close>; \<^verbatim>\<open>date.today()\<close> is
  its day. Adding \<^verbatim>\<open>timedelta(days=n)\<close> raises \<^verbatim>\<open>OverflowError\<close> when the resulting day
  is not one a \<^verbatim>\<open>datetime\<close> represents.

  \<^verbatim>\<open>
  def get_next_reminder(med):
      schedule_time = datetime.strptime(med['schedule'], '%H:%M:%S').time()
      today = datetime.now()
      next_reminder = datetime.combine(today.date(), schedule_time)
      if next_reminder < today:
          next_reminder += timedelta(days=1)
      return next_reminder
  \<close>
\<close>

definition combine :: "int \<Rightarrow> nat \<Rightarrow> datetime" where
  "combine d t = \<lparr>day = d, usec = t\<rparr>"

definition add_days :: "datetime \<Rightarrow> int \<Rightarrow> py_error + datetime" where
  "add_days t n =
     (if 1 \<le> day t + n \<and> day t + n \<le> max_ordinal then Inr (t\<lparr>day := day t + n\<rparr>)
      else Inl OverflowError)"

definition get_next_reminder :: "datetime \<Rightarrow> medication \<Rightarrow> py_error + datetime" where
  "get_next_reminder now med =
     (case strptime_hms (schedule med) of
        None \<Rightarrow> Inl ValueError
      | Some schedule_time \<Rightarrow>
          let today = now;
              next_reminder = combine (day today) schedule_time
          in if dt_less next_reminder today then add_days next_reminder 1
             else Inr next_reminder)"

subsection \<open>The parser \<^verbatim>\<open>datetime.fromisoformat\<close>\<close>

text \<open>
  The ordinal of a calendar date, as the standard library computes it (\<^verbatim>\<open>_is_leap\<close>,
  \<^verbatim>\<open>_days_in_month\<close>, \<^verbatim>\<open>_days_before_year\<close>, \<^verbatim>\<open>_days_before_month\<close>, \<^verbatim>\<open>_ymd2ord\<close>):
  2025-01-01 has the ordinal 739252.
\<close>

definition is_leap :: "nat \<Rightarrow> bool" where
  "is_leap y = (y mod 4 = 0 \<and> (y mod 100 \<noteq> 0 \<or> y mod 400 = 0))"

definition days_in_month :: "nat \<Rightarrow> nat \<Rightarrow> nat" where
  "days_in_month y m =
     (if m = 2 then (if is_leap y then 29 else 28)
      else if m = 4 \<or> m = 6 \<or> m = 9 \<or> m = 11 then 30 else 31)"

definition days_before_year :: "nat \<Rightarrow> nat" where
  "days_before_year y = (y - 1) * 365 + (y - 1) div 4 - (y - 1) div 100 + (y - 1) div 400"

definition days_before_month :: "nat \<Rightarrow> nat \<Rightarrow> nat" where
  "days_before_month y m = sum_list (map (days_in_month y) [1..<m])"

definition ymd2ord :: "nat \<Rightarrow> nat \<Rightarrow> nat \<Rightarrow> int" where
  "ymd2ord y m d = int (days_before_year y + days_before_month y m + d)"

definition valid_date :: "nat \<Rightarrow> nat \<Rightarrow> nat \<Rightarrow> bool" where
  "valid_date y m d = (1 \<le> y \<and> 1 \<le> m \<and> m \<le> 12 \<and> 1 \<le> d \<and> d \<le> days_in_month y m)"

text \<open>A non-empty string of decimal digits, read as a number.\<close>

definition nat_of_digits :: "string \<Rightarrow> nat option" where
  "nat_of_digits s =
     (if s \<noteq> [] \<and> list_all is_digit s
      then Some (foldl (\<lambda>n c. 10 * n + digit_val c) 0 s) else None)"

text \<open>
  The ten characters \<^verbatim>\<open>YYYY-MM-DD\<close>, and the time of day \<^verbatim>\<open>HH:MM:SS\<close>, alone or followed
  by a point and six digits of microseconds (what \<^verbatim>\<open>isoformat()\<close> writes, and so what
  the page "Doctor Appointments" stores).
\<close>

definition iso_date :: "string \<Rightarrow> (nat \<times> nat \<times> nat) option" where
  "iso_date s =
     (if length s = 10 \<and> s ! 4 = CHR ''-'' \<and> s ! 7 = CHR ''-'' then
        (case (nat_of_digits (take 4 s), nat_of_digits (take 2 (drop 5 s)),
               nat_of_digits (drop 8 s)) of
           (Some y, Some m, Some d) \<Rightarrow> Some (y, m, d)
         | _ \<Rightarrow> None)
      else None)"

definition iso_time :: "string \<Rightarrow> (nat \<times> nat \<times> nat \<times> nat) option" where
  "iso_time s =
     (if (length s = 8 \<or> (length s = 15 \<and> s ! 8 = CHR ''.''))
         \<and> s ! 2 = CHR '':'' \<and> s ! 5 = CHR '':'' then
        (case (nat_of_digits (take 2 s), nat_of_digits (take 2 (drop 3 s)),
               nat_of_digits (take 2 (drop 6 s)),
               if length s = 8 then Some 0 else nat_of_digits (drop 9 s)) of
           (Some hh, Some mm, Some ss, Some f) \<Rightarrow> Some (hh, mm, ss, f)
         | _ \<Rightarrow> None)
      else None)"

text \<open>
  \<^verbatim>\<open>datetime.fromisoformat(s)\<close>, with \<open>None\<close> for its \<^verbatim>\<open>ValueError\<close>. Its behaviour on
  the strings that cannot begin a date and on the two forms that the program itself
  writes is written out:

    \<^item> a string of fewer than seven characters, or one that does not begin with four
      decimal digits, is refused;
    \<^item> so is a string of ten characters or more that has a hyphen after the year, no
      \<^verbatim>\<open>W\<close> after that hyphen and no hyphen after the two characters of the month (the
      date is then neither \<^verbatim>\<open>YYYY-MM-DD\<close> nor a week date);
    \<^item> the ten characters \<^verbatim>\<open>YYYY-MM-DD\<close> alone are accepted when they name a day of the
      calendar, and give its midnight;
    \<^item> \<^verbatim>\<open>YYYY-MM-DD\<close>, any one character, and \<^verbatim>\<open>HH:MM:SS\<close> or \<^verbatim>\<open>HH:MM:SS.ffffff\<close> are
      accepted when the date is a day of the calendar, the hour is at most 23 and the
      minute and the second are at most 59.

  On every other string (the compact forms, week dates, time zone offsets, an hour of 24,
  ...) the answer depends on the version of Python, and is that of the parameter \<open>ext\<close>.
\<close>

definition fromisoformat :: "(string \<Rightarrow> datetime option) \<Rightarrow> string \<Rightarrow> datetime option" where
  "fromisoformat ext s =
     (if length s < 7 \<or> \<not> list_all is_digit (take 4 s) then None
      else if 10 \<le> length s \<and> s ! 4 = CHR ''-'' \<and> s ! 5 \<noteq> CHR ''W'' \<and> s ! 7 \<noteq> CHR ''-''
        then None
      else
        (case iso_date (take 10 s) of
           None \<Rightarrow> ext s
         | Some (y, m, d) \<Rightarrow>
             if length s = 10
               then (if valid_date y m d then Some (combine (ymd2ord y m d) 0) else None)
             else
               (case iso_time (drop 11 s) of
                  None \<Rightarrow> ext s
                | Some (hh, mm, ss, f) \<Rightarrow>
                    if hh = 24 then ext s
                    else if valid_date y m d \<and> hh \<le> 23 \<and> mm \<le> 59 \<and> ss \<le> 59
                      then Some (combine (ymd2ord y m d)
                                   ((hh * 3600 + mm * 60 + ss) * 1000000 + f))
                    else None)))"

subsection \<open>True division of integers and \<^verbatim>\<open>math.ceil\<close>\<close>

text \<open>
  \<^verbatim>\<open>(current_quantity - alert_threshold) / consumption_rate\<close> is Python's true division of
  two integers: the quotient rounded to the nearest IEEE 754 binary64 number, ties to
  even, \<^verbatim>\<open>OverflowError\<close> when that is beyond the largest float and
  \<^verbatim>\<open>ZeroDivisionError\<close> for a zero divisor. A float is kept as its mantissa and binary
  exponent, \<open>(m, e)\<close> standing for \<open>m * 2 ^ e\<close>, with \<open>\<bar>m\<bar> \<le> 2 ^ 53\<close> and
  \<open>e \<ge> - 1074\<close>.
\<close>

type_synonym pyfloat = "int \<times> int"

text \<open>The integer nearest to \<open>n / d\<close> for \<open>d > 0\<close>, a tie going to the even neighbour.\<close>

definition round_half_even :: "int \<Rightarrow> int \<Rightarrow> int" where
  "round_half_even n d =
     (let q = n div d; r = n mod d
      in if 2 * r < d then q else if d < 2 * r then q + 1
         else if even q then q else q + 1)"

text \<open>Numerator and denominator of \<open>a / (b * 2 ^ e)\<close>.\<close>

definition scaled :: "int \<Rightarrow> int \<Rightarrow> int \<Rightarrow> int \<times> int" where
  "scaled a b e = (if 0 \<le> e then (a, b * 2 ^ nat e) else (a * 2 ^ nat (- e), b))"

text \<open>
  The exponent of the result for \<open>a, b > 0\<close>: the \<open>e\<close> with
  \<open>2 ^ 52 \<le> a / (b * 2 ^ e) < 2 ^ 53\<close>, but not below the exponent of the subnormal
  numbers.
\<close>

definition float_exponent :: "int \<Rightarrow> int \<Rightarrow> int" where
  "float_exponent a b =
     (let e1 = bitlen a - bitlen b - 53;
          e0 = (case scaled a b e1 of (n, d) \<Rightarrow> if n < 2 ^ 53 * d then e1 else e1 + 1)
      in max e0 (- 1074))"

definition truediv :: "int \<Rightarrow> int \<Rightarrow> py_error + pyfloat" where
  "truediv x y =
     (if y = 0 then Inl ZeroDivisionError
      else if x = 0 then Inr (0, 0)
      else
        let a = \<bar>x\<bar>; b = \<bar>y\<bar>;
            e = float_exponent a b;
            m = (case scaled a b e of (n, d) \<Rightarrow> round_half_even n d)
        in if 0 \<le> e \<and> 2 ^ 1024 \<le> m * 2 ^ nat e then Inl OverflowError
           else Inr (sgn x * sgn y * m, e))"

text \<open>\<^verbatim>\<open>math.ceil\<close> of a float is the exact integer ceiling of its value.\<close>

definition math_ceil :: "pyfloat \<Rightarrow> int" where
  "math_ceil f =
     (case f of (m, e) \<Rightarrow> if 0 \<le> e then m * 2 ^ nat e else - ((- m) div 2 ^ nat (- e)))"

text \<open>
  The refill computation appears twice in the source with the same text, in
  \<^verbatim>\<open>generate_calendar\<close> and on the Home page:
  \<^verbatim>\<open>
  if consumption_rate > 0 and current_quantity > alert_threshold:
      days_until_low = math.ceil((current_quantity - alert_threshold) / consumption_rate)
      notification_date = date.today() + timedelta(days=days_until_low)
      ... datetime(notification_date.year, notification_date.month, notification_date.day)
  \<close>
  \<open>refill_start\<close> gives \<open>None\<close> when the condition fails and the start of the refill
  alert otherwise.
\<close>

definition days_until_low :: "stock \<Rightarrow> py_error + int" where
  "days_until_low st =
     (case truediv (current_quantity st - alert_threshold st) (consumption_rate st) of
        Inl e \<Rightarrow> Inl e
      | Inr q \<Rightarrow> Inr (math_ceil q))"

definition refill_start :: "datetime \<Rightarrow> stock \<Rightarrow> py_error + datetime option" where
  "refill_start now st =
     (if consumption_rate st > 0 \<and> current_quantity st > alert_threshold st then
        (case days_until_low st of
           Inl e \<Rightarrow> Inl e
         | Inr d \<Rightarrow>
             (case add_days (combine (day now) 0) d of
                Inl e \<Rightarrow> Inl e
              | Inr notification_date \<Rightarrow> Inr (Some notification_date)))
      else Inr None)"

section \<open>Calendar builder\<close>

record rrule =
  freq :: string
  interval :: "int option"
  byday :: "string option"

record event =
  summary :: string
  dtstart :: datetime
  recurrence :: "rrule option"

text \<open>
  The frequency is read with \<^verbatim>\<open>st.session_state.get(f'freq_{med["name"]}', "daily")\<close>;
  \<open>ss\<close> is the session state restricted to its string entries.
\<close>

definition frequency_of :: "(string \<rightharpoonup> string) \<Rightarrow> medication \<Rightarrow> string" where
  "frequency_of ss med = (case ss (''freq_'' @ name med) of None \<Rightarrow> ''daily'' | Some f \<Rightarrow> f)"

definition rrule_of :: "string \<Rightarrow> rrule" where
  "rrule_of frequency =
     (if frequency = ''every_other_day''
        then \<lparr>freq = ''daily'', interval = Some 2, byday = None\<rparr>
      else if frequency = ''weekly''
        then \<lparr>freq = ''weekly'', interval = None, byday = Some ''MO''\<rparr>
      else \<lparr>freq = ''daily'', interval = None, byday = None\<rparr>)"

text \<open>The body of the loop over the medications: the events it adds to the calendar.\<close>

definition medication_events ::
  "(string \<rightharpoonup> string) \<Rightarrow> datetime \<Rightarrow> medication \<Rightarrow> py_error + event list" where
  "medication_events ss now med =
     (case get_next_reminder now med of
        Inl e \<Rightarrow> Inl e
      | Inr start \<Rightarrow>
          let ev = \<lparr>summary = ''Take '' @ name med, dtstart = start,
                    recurrence = Some (rrule_of (frequency_of ss med))\<rparr>
          in (case stock med of
                None \<Rightarrow> Inr [ev]
              | Some st \<Rightarrow>
                  (case refill_start now st of
                     Inl e \<Rightarrow> Inl e
                   | Inr None \<Rightarrow> Inr [ev]
                   | Inr (Some t) \<Rightarrow>
                       Inr [ev, \<lparr>summary = ''Refill '' @ name med, dtstart = t,
                                 recurrence = None\<rparr>])))"

text \<open>The body of the loop over the appointments.\<close>

definition appointment_event ::
  "(string \<Rightarrow> datetime option) \<Rightarrow> appointment \<Rightarrow> py_error + event list" where
  "appointment_event fromiso appt =
     (let title = (case description appt of None \<Rightarrow> ''Doctor Appointment'' | Some d \<Rightarrow> d)
      in case fromiso (date_time appt) of
           None \<Rightarrow> Inl ValueError
         | Some t \<Rightarrow> Inr [\<lparr>summary = title, dtstart = t, recurrence = None\<rparr>])"

text \<open>
  A \<^verbatim>\<open>for\<close> loop that adds the events of each item in turn; the first exception ends
  it.
\<close>

fun collect :: "('a \<Rightarrow> py_error + 'b list) \<Rightarrow> 'a list \<Rightarrow> py_error + 'b list" where
  "collect f [] = Inr []"
| "collect f (x # xs) =
     (case f x of
        Inl e \<Rightarrow> Inl e
      | Inr es \<Rightarrow> (case collect f xs of Inl e \<Rightarrow> Inl e | Inr rest \<Rightarrow> Inr (es @ rest)))"

text \<open>
  \<^verbatim>\<open>not selected_meds or med['name'] in selected_meds\<close>, with \<open>None\<close> for the default
  argument.
\<close>

definition is_selected :: "string list option \<Rightarrow> medication \<Rightarrow> bool" where
  "is_selected selected_meds med =
     (case selected_meds of None \<Rightarrow> True | Some ns \<Rightarrow> ns = [] \<or> name med \<in> set ns)"

text \<open>
  \<^verbatim>\<open>generate_calendar\<close>: the result is the list of the calendar's events in the order
  they were added (the serialisation by \<^verbatim>\<open>cal.to_ical()\<close> is the library's).
\<close>

definition generate_calendar ::
  "(string \<Rightarrow> datetime option) \<Rightarrow> (string \<rightharpoonup> string) \<Rightarrow> datetime \<Rightarrow> document
     \<Rightarrow> string list option \<Rightarrow> py_error + event list" where
  "generate_calendar fromiso ss now data selected_meds =
     (let meds = filter (is_selected selected_meds) (medications data)
      in case collect (medication_events ss now) meds of
           Inl e \<Rightarrow> Inl e
         | Inr cal \<Rightarrow>
             (case collect (appointment_event fromiso) (appointments data) of
                Inl e \<Rightarrow> Inl e
              | Inr cal' \<Rightarrow> Inr (cal @ cal')))"

text \<open>
  The Home page builds its list \<^verbatim>\<open>upcoming_events\<close> from every medication and every
  appointment in the same way, as pairs of start time and summary, before sorting it.
\<close>

definition home_medication_entries ::
  "datetime \<Rightarrow> medication \<Rightarrow> py_error + (datetime \<times> string) list" where
  "home_medication_entries now med =
     (case get_next_reminder now med of
        Inl e \<Rightarrow> Inl e
      | Inr next_reminder \<Rightarrow>
          (case stock med of
             None \<Rightarrow> Inr [(next_reminder, ''Take '' @ name med)]
           | Some st \<Rightarrow>
               (case refill_start now st of
                  Inl e \<Rightarrow> Inl e
                | Inr None \<Rightarrow> Inr [(next_reminder, ''Take '' @ name med)]
                | Inr (Some t) \<Rightarrow>
                    Inr [(next_reminder, ''Take '' @ name med), (t, ''Refill '' @ name med)])))"

definition home_appointment_entry ::
  "(string \<Rightarrow> datetime option) \<Rightarrow> appointment \<Rightarrow> py_error + (datetime \<times> string) list" where
  "home_appointment_entry fromiso appt =
     (case fromiso (date_time appt) of
        None \<Rightarrow> Inl ValueError
      | Some t \<Rightarrow>
          Inr [(t, case description appt of None \<Rightarrow> ''Doctor Appointment'' | Some d \<Rightarrow> d)])"

definition upcoming_events ::
  "(string \<Rightarrow> datetime option) \<Rightarrow> datetime \<Rightarrow> document
     \<Rightarrow> py_error + (datetime \<times> string) list" where
  "upcoming_events fromiso now data =
     (case collect (home_medication_entries now) (medications data) of
        Inl e \<Rightarrow> Inl e
      | Inr es \<Rightarrow>
          (case collect (home_appointment_entry fromiso) (appointments data) of
             Inl e \<Rightarrow> Inl e
           | Inr es' \<Rightarrow> Inr (es @ es')))"

section \<open>Store\<close>

text \<open>
  The backing file \<^verbatim>\<open>mediremind_data.json\<close> is in one of the three states the source
  distinguishes: absent (\<^verbatim>\<open>open\<close> raises \<^verbatim>\<open>FileNotFoundError\<close>), present with text
  that is not JSON (\<^verbatim>\<open>json.load\<close> raises \<^verbatim>\<open>JSONDecodeError\<close>), or holding a
  document. \<^verbatim>\<open>json.dump\<close> followed by \<^verbatim>\<open>json.load\<close> returns an equal value for the
  values a document is made of (dictionaries with string keys, lists, strings and
  integers), so a written file is modelled by the document it holds. \<open>writable\<close> says
  whether opening the file for writing succeeds.

  \<^verbatim>\<open>load_data\<close> of \<^verbatim>\<open>app.py\<close> is decorated with \<^verbatim>\<open>@st.cache_data\<close> and takes no
  argument: its first completed call stores the returned document together with the
  messages it displayed, and every later call returns the stored document and replays the
  messages without running the body. \<open>cache\<close> is that entry and \<open>shown\<close> the messages
  displayed so far.
\<close>

datatype file_content = Absent | Garbled | Holds document

datatype ui_msg = Error string | ErrorExc string py_error | Toast string

record env =
  backing_file :: file_content
  writable :: bool
  cache :: "(document \<times> ui_msg list) option"
  shown :: "ui_msg list"

text \<open>
  The body of \<^verbatim>\<open>load_data\<close> in \<^verbatim>\<open>app.py\<close>:
  \<^verbatim>\<open>
  try:
      with open('mediremind_data.json', 'r') as f:
          return json.load(f)
  except FileNotFoundError:
      st.error("Data file not found. Starting with empty data.")
      return {"medications": [], "appointments": []}
  except json.JSONDecodeError:
      st.error("Error parsing JSON file. Please check the format.")
      return {"medications": [], "appointments": []}
  \<close>
\<close>

definition load_data_body :: "file_content \<Rightarrow> document \<times> ui_msg list" where
  "load_data_body f =
     (case f of
        Holds d \<Rightarrow> (d, [])
      | Absent \<Rightarrow> (empty_document, [Error ''Data file not found. Starting with empty data.''])
      | Garbled \<Rightarrow>
          (empty_document, [Error ''Error parsing JSON file. Please check the format.'']))"

definition load_data :: "env \<Rightarrow> document \<times> env" where
  "load_data w =
     (case cache w of
        Some (d, msgs) \<Rightarrow> (d, w\<lparr>shown := shown w @ msgs\<rparr>)
      | None \<Rightarrow>
          (case load_data_body (backing_file w) of
             (d, msgs) \<Rightarrow> (d, w\<lparr>cache := Some (d, msgs), shown := shown w @ msgs\<rparr>)))"

text \<open>
  \<^verbatim>\<open>
  def save_data(data):
      try:
          with open('mediremind_data.json', 'w') as f:
              json.dump(data, f, indent=4)
      except Exception as e:
          st.error(f"Error saving data: {e}")
  \<close>
\<close>

definition save_data :: "document \<Rightarrow> env \<Rightarrow> env" where
  "save_data data w =
     (if writable w then w\<lparr>backing_file := Holds data\<rparr>
      else w\<lparr>shown := shown w @ [ErrorExc ''Error saving data: '' OSError]\<rparr>)"

text \<open>
  The store of \<^verbatim>\<open>pa.py\<close> has no cache and shows nothing:
  \<^verbatim>\<open>
  def load_data():
      try:
          with open('mediremind_data.json', 'r') as f:
              return json.load(f)
      except FileNotFoundError:
          return {"medications": [], "appointments": []}

  def save_data(data):
      with open('mediremind_data.json', 'w') as f:
          json.dump(data, f, indent=4)
  \<close>
\<close>

definition pa_load_data :: "env \<Rightarrow> py_error + document" where
  "pa_load_data w =
     (case backing_file w of
        Holds d \<Rightarrow> Inr d
      | Absent \<Rightarrow> Inr empty_document
      | Garbled \<Rightarrow> Inl JSONDecodeError)"

definition pa_save_data :: "document \<Rightarrow> env \<Rightarrow> py_error + env" where
  "pa_save_data data w = (if writable w then Inr (w\<lparr>backing_file := Holds data\<rparr>) else Inl OSError)"

section \<open>The Export/Import page\<close>

text \<open>
  A run of the page script works on the session's document \<^verbatim>\<open>st.session_state.data\<close>
  and on the environment. \<^verbatim>\<open>st.stop()\<close> raises Streamlit's \<^verbatim>\<open>StopException\<close>, which
  derives from \<^verbatim>\<open>BaseException\<close>: no \<^verbatim>\<open>except Exception\<close> catches it and the run of
  the script ends there. A step therefore ends in one of three ways.
\<close>

record session =
  data :: document
  world :: env

datatype outcome = Running session | Stopped session | Raised py_error session

fun and_then :: "outcome \<Rightarrow> (session \<Rightarrow> outcome) \<Rightarrow> outcome" where
  "and_then (Running s) f = f s"
| "and_then (Stopped s) f = Stopped s"
| "and_then (Raised e s) f = Raised e s"

definition st_error :: "string \<Rightarrow> session \<Rightarrow> session" where
  "st_error msg s = s\<lparr>world := (world s)\<lparr>shown := shown (world s) @ [Error msg]\<rparr>\<rparr>"

definition st_error_exc :: "string \<Rightarrow> py_error \<Rightarrow> session \<Rightarrow> session" where
  "st_error_exc msg e s = s\<lparr>world := (world s)\<lparr>shown := shown (world s) @ [ErrorExc msg e]\<rparr>\<rparr>"

definition st_toast :: "string \<Rightarrow> session \<Rightarrow> session" where
  "st_toast msg s = s\<lparr>world := (world s)\<lparr>shown := shown (world s) @ [Toast msg]\<rparr>\<rparr>"

definition st_stop :: "session \<Rightarrow> outcome" where
  "st_stop s = Stopped s"

text \<open>\<^verbatim>\<open>save_data(st.session_state.data)\<close>.\<close>

definition save_session :: "session \<Rightarrow> session" where
  "save_session s = s\<lparr>world := save_data (data s) (world s)\<rparr>"

text \<open>
  What \<^verbatim>\<open>json.load(uploaded_file)\<close> gives: a \<^verbatim>\<open>JSONDecodeError\<close>, a value that is not a
  dictionary, or a dictionary, of which the model keeps the entries \<^verbatim>\<open>medications\<close> and
  \<^verbatim>\<open>appointments\<close>, each present or not.
\<close>

datatype top = NotADict | Dict "medication list option" "appointment list option"

datatype upload = Undecodable | Decoded top

text \<open>
  The negation of \<^verbatim>\<open>not isinstance(new_data, dict) or 'medications' not in new_data or
  'appointments' not in new_data\<close>.
\<close>

fun has_shape :: "top \<Rightarrow> bool" where
  "has_shape NotADict = False"
| "has_shape (Dict ms aps) = (ms \<noteq> None \<and> aps \<noteq> None)"

fun get_medications :: "top \<Rightarrow> py_error + medication list" where
  "get_medications NotADict = Inl TypeError"
| "get_medications (Dict None aps) = Inl KeyError"
| "get_medications (Dict (Some ms) aps) = Inr ms"

fun get_appointments :: "top \<Rightarrow> py_error + appointment list" where
  "get_appointments NotADict = Inl TypeError"
| "get_appointments (Dict ms None) = Inl KeyError"
| "get_appointments (Dict ms (Some aps)) = Inr aps"

text \<open>
  \<^verbatim>\<open>
  for med in new_data['medications']:
      is_valid, error = validate_medication(med)
      if not is_valid:
          st.error(f"Invalid medication: {error}")
          st.stop()
  \<close>
  and the same loop over the appointments.
\<close>

fun check_medications :: "medication list \<Rightarrow> session \<Rightarrow> outcome" where
  "check_medications [] s = Running s"
| "check_medications (med # meds) s =
     (case validate_medication med of
        (is_valid, error) \<Rightarrow>
          if \<not> is_valid then st_stop (st_error (''Invalid medication: '' @ error) s)
          else check_medications meds s)"

fun check_appointments ::
  "(string \<Rightarrow> datetime option) \<Rightarrow> appointment list \<Rightarrow> session \<Rightarrow> outcome" where
  "check_appointments fromiso [] s = Running s"
| "check_appointments fromiso (appt # appts) s =
     (case validate_appointment fromiso appt of
        (is_valid, error) \<Rightarrow>
          if \<not> is_valid then st_stop (st_error (''Invalid appointment: '' @ error) s)
          else check_appointments fromiso appts s)"

text \<open>
  The body of the \<^verbatim>\<open>try\<close> of the import handler, statement by statement. In the source
  the call \<^verbatim>\<open>st.stop()\<close> that follows the shape check is indented as a statement of the
  \<^verbatim>\<open>try\<close> block, not of the \<^verbatim>\<open>if\<close>:
  \<^verbatim>\<open>
  new_data = json.load(uploaded_file)
  if not isinstance(new_data, dict) or 'medications' not in new_data or ...:
      st.error("Invalid data format. Please upload a valid MediRemind JSON file.")
  st.stop()
  for med in new_data['medications']: ...
  for appt in new_data['appointments']: ...
  st.session_state.data = new_data
  save_data(st.session_state.data)
  st.toast("Data imported successfully")
  \<close>
\<close>

definition import_try :: "(string \<Rightarrow> datetime option) \<Rightarrow> upload \<Rightarrow> session \<Rightarrow> outcome" where
  "import_try fromiso uploaded_file s =
     (case uploaded_file of
        Undecodable \<Rightarrow> Raised JSONDecodeError s
      | Decoded new_data \<Rightarrow>
          and_then
            (Running (if \<not> has_shape new_data
               then st_error ''Invalid data format. Please upload a valid MediRemind JSON file.'' s
               else s))
          (\<lambda>s. and_then (st_stop s)
          (\<lambda>s. case get_medications new_data of
                  Inl e \<Rightarrow> Raised e s
                | Inr meds \<Rightarrow>
                    and_then (check_medications meds s)
                    (\<lambda>s. case get_appointments new_data of
                            Inl e \<Rightarrow> Raised e s
                          | Inr appts \<Rightarrow>
                              and_then (check_appointments fromiso appts s)
                              (\<lambda>s. Running
                                 (st_toast ''Data imported successfully''
                                    (save_session
                                       (s\<lparr>data := \<lparr>medications = meds,
                                                     appointments = appts\<rparr>\<rparr>))))))))"

text \<open>
  The handlers \<^verbatim>\<open>except json.JSONDecodeError\<close> and \<^verbatim>\<open>except Exception as e\<close>.
\<close>

definition import_handler ::
  "(string \<Rightarrow> datetime option) \<Rightarrow> upload \<Rightarrow> session \<Rightarrow> outcome" where
  "import_handler fromiso uploaded_file s =
     (case import_try fromiso uploaded_file s of
        Raised e s' \<Rightarrow>
          if e = JSONDecodeError then Running (st_error ''Invalid JSON file format'' s')
          else Running (st_error_exc ''Error importing data: '' e s')
      | r \<Rightarrow> r)"

text \<open>
  A run of the script on the Export/Import page with a file in the uploader: the handler,
  and then the last statement of the script, \<^verbatim>\<open>save_data(st.session_state.data)\<close>, which
  a stopped run does not reach.
\<close>

definition export_import_page ::
  "(string \<Rightarrow> datetime option) \<Rightarrow> upload \<Rightarrow> session \<Rightarrow> outcome" where
  "export_import_page fromiso uploaded_file s =
     and_then (import_handler fromiso uploaded_file s) (\<lambda>s. Running (save_session s))"

section \<open>Properties of the validator\<close>

lemma strip_empty_iff: "strip s = [] \<longleftrightarrow> (\<forall>c\<in>set s. isspace c)"
proof -
  have "strip s = [] \<longleftrightarrow> (\<forall>c\<in>set (dropWhile isspace s). isspace c)"
    by (simp add: strip_def dropWhile_eq_Nil_conv)
  also have "\<dots> \<longleftrightarrow> (\<forall>c\<in>set s. isspace c)"
  proof
    assume a: "\<forall>c\<in>set (dropWhile isspace s). isspace c"
    have "set s = set (takeWhile isspace s) \<union> set (dropWhile isspace s)"
      by (metis set_append takeWhile_dropWhile_id)
    with a show "\<forall>c\<in>set s. isspace c"
      by (auto dest: set_takeWhileD)
  next
    assume "\<forall>c\<in>set s. isspace c"
    then show "\<forall>c\<in>set (dropWhile isspace s). isspace c"
      by (auto dest: set_dropWhileD)
  qed
  finally show ?thesis .
qed

lemma isspace_space: "isspace CHR '' ''"
  by (simp add: isspace_def)

lemma not_isspace_A: "\<not> isspace CHR ''A''"
  by (simp add: isspace_def)

text \<open>
  Claim C8. \<^verbatim>\<open>validate_medication\<close> fails with "Medication name cannot be empty" when
  the name is empty or consists of whitespace only. Otherwise, when the medication has no
  stock it succeeds, and when it has stock the three checks run in the order
  \<^verbatim>\<open>current_quantity < 0\<close>, \<^verbatim>\<open>consumption_rate <= 0\<close> (message "Consumption rate must be
  positive"), \<^verbatim>\<open>alert_threshold < 0\<close>; the first one that fails gives the message, and
  when none fails the validation succeeds with the empty message.
\<close>

theorem validate_medication_cases:
  "((\<forall>c\<in>set (name med). isspace c) \<longrightarrow>
      validate_medication med = (False, ''Medication name cannot be empty''))
   \<and> (\<not> (\<forall>c\<in>set (name med). isspace c) \<longrightarrow>
        (stock med = None \<longrightarrow> validate_medication med = (True, ''''))
      \<and> (\<forall>st. stock med = Some st \<longrightarrow>
            (current_quantity st < 0 \<longrightarrow>
               validate_medication med = (False, ''Current quantity cannot be negative''))
          \<and> (0 \<le> current_quantity st \<and> consumption_rate st \<le> 0 \<longrightarrow>
               validate_medication med = (False, ''Consumption rate must be positive''))
          \<and> (0 \<le> current_quantity st \<and> 0 < consumption_rate st \<and> alert_threshold st < 0 \<longrightarrow>
               validate_medication med = (False, ''Alert threshold cannot be negative''))
          \<and> (0 \<le> current_quantity st \<and> 0 < consumption_rate st \<and> 0 \<le> alert_threshold st \<longrightarrow>
               validate_medication med = (True, ''''))))"
  by (auto simp: validate_medication_def strip_empty_iff)

theorem validate_medication_cases_witness:
  "validate_medication \<lparr>name = ''  '', schedule = ''00:00:00'', stock = None\<rparr>
     = (False, ''Medication name cannot be empty'')
   \<and> validate_medication \<lparr>name = ''A'', schedule = ''00:00:00'',
        stock = Some \<lparr>current_quantity = 10, consumption_rate = 0, alert_threshold = 5\<rparr>\<rparr>
     = (False, ''Consumption rate must be positive'')
   \<and> validate_medication \<lparr>name = ''A'', schedule = ''00:00:00'',
        stock = Some \<lparr>current_quantity = - 1, consumption_rate = 0, alert_threshold = - 5\<rparr>\<rparr>
     = (False, ''Current quantity cannot be negative'')
   \<and> validate_medication \<lparr>name = ''A'', schedule = ''00:00:00'',
        stock = Some \<lparr>current_quantity = 30, consumption_rate = 5, alert_threshold = 10\<rparr>\<rparr>
     = (True, '''')"
  using
    validate_medication_cases [of "\<lparr>name = ''  '', schedule = ''00:00:00'', stock = None\<rparr>"]
    validate_medication_cases [of "\<lparr>name = ''A'', schedule = ''00:00:00'',
        stock = Some \<lparr>current_quantity = 10, consumption_rate = 0, alert_threshold = 5\<rparr>\<rparr>"]
    validate_medication_cases [of "\<lparr>name = ''A'', schedule = ''00:00:00'',
        stock = Some \<lparr>current_quantity = - 1, consumption_rate = 0, alert_threshold = - 5\<rparr>\<rparr>"]
    validate_medication_cases [of "\<lparr>name = ''A'', schedule = ''00:00:00'',
        stock = Some \<lparr>current_quantity = 30, consumption_rate = 5, alert_threshold = 10\<rparr>\<rparr>"]
  by (simp add: isspace_space not_isspace_A)

lemma ymd2ord_2025_01_01: "ymd2ord 2025 (Suc 0) (Suc 0) = 739252"
  by (simp add: ymd2ord_def days_before_year_def days_before_month_def)

lemma valid_date_2025_01_01: "valid_date 2025 (Suc 0) (Suc 0)"
  by (simp add: valid_date_def days_in_month_def)

lemma iso_date_2025_01_01: "iso_date ''2025-01-01'' = Some (2025, Suc 0, Suc 0)"
  by (simp add: iso_date_def nat_of_digits_def is_digit_def digit_val_def)

lemma iso_time_09_00_00: "iso_time ''09:00:00'' = Some (9, 0, 0, 0)"
  by (simp add: iso_time_def nat_of_digits_def is_digit_def digit_val_def)

lemma fromisoformat_2025_01_01T09_00_00:
  "fromisoformat ext ''2025-01-01T09:00:00'' = Some \<lparr>day = 739252, usec = 32400000000\<rparr>"
  by (simp add: fromisoformat_def iso_date_2025_01_01 iso_time_09_00_00 is_digit_def
      valid_date_2025_01_01 ymd2ord_2025_01_01 combine_def)






section \<open>Properties of the reminder calculator\<close>

lemma strptime_0800: "strptime_hms ''08:00:00'' = Some 28800000000"
  by (simp add: strptime_hms_def not_colon_def is_digit_def digit_val_def)

lemma strptime_8am: "strptime_hms ''8am'' = None"
  by (simp add: strptime_hms_def not_colon_def)

lemma get_next_reminder_eq:
  "strptime_hms (schedule med) = Some t \<Longrightarrow>
   get_next_reminder now med =
     (if t < usec now
      then (if 0 \<le> day now \<and> day now < max_ordinal
            then Inr \<lparr>day = day now + 1, usec = t\<rparr> else Inl OverflowError)
      else Inr \<lparr>day = day now, usec = t\<rparr>)"
  by (simp add: get_next_reminder_def dt_less_def combine_def add_days_def Let_def)

text \<open>
  Claim C3, as the code has it. When the schedule of a medication parses as the time of
  day \<open>t\<close>, \<^verbatim>\<open>get_next_reminder\<close> combines \<open>t\<close> with the date of \<open>now\<close>, adds exactly
  one day when that timestamp is strictly before \<open>now\<close> and returns it unchanged
  otherwise. Adding the day raises \<^verbatim>\<open>OverflowError\<close> when \<open>now\<close> is on 9999-12-31, the
  last day a \<^verbatim>\<open>datetime\<close> represents; on every earlier day, and whenever the schedule
  time is not before the current time of day, a result is returned. A result for a
  schedule time strictly earlier than the current time of day is on the following day, a
  result for a schedule time later than or equal to it is on the same day, and no result
  is before \<open>now\<close>.
\<close>

theorem get_next_reminder_spec:
  assumes "strptime_hms (schedule med) = Some t"
  shows "get_next_reminder now med =
           (if dt_less (combine (day now) t) now then add_days (combine (day now) t) 1
            else Inr (combine (day now) t))
         \<and> (\<forall>r. get_next_reminder now med = Inr r \<longrightarrow>
               usec r = t
               \<and> (t < usec now \<longrightarrow> day r = day now + 1)
               \<and> (usec now \<le> t \<longrightarrow> day r = day now)
               \<and> dt_le now r)
         \<and> (0 \<le> day now \<and> day now < max_ordinal \<or> usec now \<le> t \<longrightarrow>
               (\<exists>r. get_next_reminder now med = Inr r))
         \<and> (day now = max_ordinal \<and> t < usec now \<longrightarrow>
               get_next_reminder now med = Inl OverflowError)"
proof (intro conjI allI impI)
  note eq = get_next_reminder_eq [OF assms, of now]
  show "get_next_reminder now med =
           (if dt_less (combine (day now) t) now then add_days (combine (day now) t) 1
            else Inr (combine (day now) t))"
    using assms by (simp add: get_next_reminder_def Let_def)
  show "\<exists>r. get_next_reminder now med = Inr r"
    if "0 \<le> day now \<and> day now < max_ordinal \<or> usec now \<le> t"
    using that by (auto simp: eq)
  show "get_next_reminder now med = Inl OverflowError"
    if "day now = max_ordinal \<and> t < usec now"
    using that by (simp add: eq)
  fix r assume r: "get_next_reminder now med = Inr r"
  show u: "usec r = t" using r by (auto simp: eq split: if_splits)
  show d1: "day r = day now + 1" if "t < usec now"
    using r that by (auto simp: eq split: if_splits)
  show d2: "day r = day now" if "usec now \<le> t"
    using r that by (auto simp: eq split: if_splits)
  show "dt_le now r"
  proof (cases "t < usec now")
    case True
    then show ?thesis by (simp add: dt_le_def dt_less_def d1)
  next
    case False
    then have "day r = day now" "usec now \<le> usec r" by (simp_all add: d2 u)
    then show ?thesis by (cases "usec now = usec r") (auto simp: dt_le_def dt_less_def)
  qed
qed

theorem get_next_reminder_spec_witness:
  "get_next_reminder \<lparr>day = 739252, usec = 43200000000\<rparr>
       \<lparr>name = ''A'', schedule = ''08:00:00'', stock = None\<rparr>
     = Inr \<lparr>day = 739253, usec = 28800000000\<rparr>
   \<and> get_next_reminder \<lparr>day = 739252, usec = 28800000000\<rparr>
       \<lparr>name = ''A'', schedule = ''08:00:00'', stock = None\<rparr>
     = Inr \<lparr>day = 739252, usec = 28800000000\<rparr>"
proof -
  have s: "strptime_hms (schedule \<lparr>name = ''A'', schedule = ''08:00:00'', stock = None\<rparr>)
             = Some 28800000000"
    by (simp add: strptime_0800)
  from get_next_reminder_spec [OF s, of "\<lparr>day = 739252, usec = 43200000000\<rparr>"]
  have "get_next_reminder \<lparr>day = 739252, usec = 43200000000\<rparr>
       \<lparr>name = ''A'', schedule = ''08:00:00'', stock = None\<rparr>
     = Inr \<lparr>day = 739253, usec = 28800000000\<rparr>"
    by (simp add: dt_less_def combine_def add_days_def max_ordinal_def)
  moreover
  from get_next_reminder_spec [OF s, of "\<lparr>day = 739252, usec = 28800000000\<rparr>"]
  have "get_next_reminder \<lparr>day = 739252, usec = 28800000000\<rparr>
       \<lparr>name = ''A'', schedule = ''08:00:00'', stock = None\<rparr>
     = Inr \<lparr>day = 739252, usec = 28800000000\<rparr>"
    by (simp add: dt_less_def combine_def add_days_def max_ordinal_def)
  ultimately show ?thesis by (rule conjI)
qed

text \<open>
  The claim as the specification words it, for every current time, fails on the last day
  of the calendar: at noon of 9999-12-31 a medication scheduled for 08:00:00 has no next
  reminder, the call raises \<^verbatim>\<open>OverflowError\<close>.
\<close>

theorem get_next_reminder_counterexample:
  "get_next_reminder \<lparr>day = 3652059, usec = 43200000000\<rparr>
       \<lparr>name = ''A'', schedule = ''08:00:00'', stock = None\<rparr>
     = Inl OverflowError"
  by (simp add: get_next_reminder_def strptime_0800 dt_less_def combine_def add_days_def
      max_ordinal_def)

section \<open>Properties of the calendar builder\<close>

lemma collect_fails:
  "x \<in> set xs \<Longrightarrow> f x = Inl e \<Longrightarrow> \<exists>e'. collect f xs = Inl e'"
  by (induction xs) (auto split: sum.splits)

lemma medication_events_bad_schedule:
  "strptime_hms (schedule med) = None \<Longrightarrow> medication_events ss now med = Inl ValueError"
  by (simp add: medication_events_def get_next_reminder_def)

text \<open>
  Claim C10. The result of \<^verbatim>\<open>validate_medication\<close> does not depend on the schedule
  field: replacing the schedule by any string leaves the result as it was, so a medication
  whose name is not blank and whose stock is absent or valid passes whatever its schedule
  is. A selected medication of the document whose schedule \<^verbatim>\<open>strptime\<close> rejects makes
  \<^verbatim>\<open>generate_calendar\<close> end with an exception, whatever the validator said about it.
\<close>

theorem validate_medication_ignores_schedule:
  "validate_medication (med\<lparr>schedule := s\<rparr>) = validate_medication med
   \<and> (\<not> (\<forall>c\<in>set (name med). isspace c)
        \<and> (\<forall>st. stock med = Some st \<longrightarrow>
               0 \<le> current_quantity st \<and> 0 < consumption_rate st \<and> 0 \<le> alert_threshold st)
      \<longrightarrow> validate_medication (med\<lparr>schedule := s\<rparr>) = (True, ''''))
   \<and> (med \<in> set (medications doc) \<and> is_selected sel med
        \<and> strptime_hms (schedule med) = None
      \<longrightarrow> (\<exists>e. generate_calendar fromiso ss now doc sel = Inl e))"
proof (intro conjI)
  show "validate_medication (med\<lparr>schedule := s\<rparr>) = validate_medication med"
    by (simp add: validate_medication_def)
next
  show "\<not> (\<forall>c\<in>set (name med). isspace c)
        \<and> (\<forall>st. stock med = Some st \<longrightarrow>
               0 \<le> current_quantity st \<and> 0 < consumption_rate st \<and> 0 \<le> alert_threshold st)
      \<longrightarrow> validate_medication (med\<lparr>schedule := s\<rparr>) = (True, '''')"
    by (cases "stock med") (auto simp: validate_medication_def strip_empty_iff)
next
  show "med \<in> set (medications doc) \<and> is_selected sel med
        \<and> strptime_hms (schedule med) = None
      \<longrightarrow> (\<exists>e. generate_calendar fromiso ss now doc sel = Inl e)"
  proof
    assume a: "med \<in> set (medications doc) \<and> is_selected sel med
        \<and> strptime_hms (schedule med) = None"
    then have m: "med \<in> set (filter (is_selected sel) (medications doc))"
      by simp
    from a have "medication_events ss now med = Inl ValueError"
      by (simp add: medication_events_bad_schedule)
    from collect_fails [of med _ "medication_events ss now", OF m this] obtain e' where
      "collect (medication_events ss now) (filter (is_selected sel) (medications doc)) = Inl e'"
      ..
    then show "\<exists>e. generate_calendar fromiso ss now doc sel = Inl e"
      by (simp add: generate_calendar_def)
  qed
qed

theorem validate_medication_ignores_schedule_witness:
  "validate_medication \<lparr>name = ''A'', schedule = ''8am'', stock = None\<rparr> = (True, '''')
   \<and> validate_medication \<lparr>name = ''A'', schedule = ''08:00:00'', stock = None\<rparr> = (True, '''')
   \<and> (\<exists>e. generate_calendar (\<lambda>s. None) Map.empty \<lparr>day = 739252, usec = 0\<rparr>
          \<lparr>medications = [\<lparr>name = ''A'', schedule = ''8am'', stock = None\<rparr>],
           appointments = []\<rparr> None = Inl e)"
  using validate_medication_ignores_schedule
    [where med = "\<lparr>name = ''A'', schedule = ''8am'', stock = None\<rparr>"
       and s = "''08:00:00''"
       and doc = "\<lparr>medications = [\<lparr>name = ''A'', schedule = ''8am'', stock = None\<rparr>],
                   appointments = []\<rparr>"
       and sel = None and fromiso = "\<lambda>s. None" and ss = Map.empty
       and now = "\<lparr>day = 739252, usec = 0\<rparr>"]
  by (simp add: strptime_8am is_selected_def validate_medication_def strip_def not_isspace_A)

lemma collect_map_filter:
  assumes "\<And>x es. f x = Inr es \<Longrightarrow> map k (filter P es) = [h x]"
  shows "collect f xs = Inr ys \<Longrightarrow> map k (filter P ys) = map h xs"
proof (induction xs arbitrary: ys)
  case Nil
  then show ?case by simp
next
  case (Cons x xs)
  then obtain es rest where e: "f x = Inr es" "collect f xs = Inr rest" "ys = es @ rest"
    by (auto split: sum.splits)
  with Cons.IH [of rest] assms [of x es] show ?case by simp
qed

lemma collect_filter_none:
  assumes "\<And>x es. f x = Inr es \<Longrightarrow> filter P es = []"
  shows "collect f xs = Inr ys \<Longrightarrow> filter P ys = []"
proof (induction xs arbitrary: ys)
  case Nil
  then show ?case by simp
next
  case (Cons x xs)
  then obtain es rest where e: "f x = Inr es" "collect f xs = Inr rest" "ys = es @ rest"
    by (auto split: sum.splits)
  with Cons.IH [of rest] assms [of x es] show ?case by simp
qed

lemma collect_succeeds:
  "(\<And>x. x \<in> set xs \<Longrightarrow> \<exists>es. f x = Inr es) \<Longrightarrow> \<exists>ys. collect f xs = Inr ys"
proof (induction xs)
  case Nil
  then show ?case by simp
next
  case (Cons x xs)
  then obtain es where "f x = Inr es" by auto
  moreover from Cons obtain rest where "collect f xs = Inr rest" by auto
  ultimately show ?case by simp
qed

lemma medication_events_recurring:
  "medication_events ss now med = Inr es \<Longrightarrow>
     map (\<lambda>e. (summary e, recurrence e)) (filter (\<lambda>e. recurrence e \<noteq> None) es)
       = [(''Take '' @ name med, Some (rrule_of (frequency_of ss med)))]"
  by (auto simp: medication_events_def Let_def split: sum.splits option.splits)

lemma appointment_event_not_recurring:
  "appointment_event fromiso a = Inr es \<Longrightarrow> filter (\<lambda>e. recurrence e \<noteq> None) es = []"
  by (auto simp: appointment_event_def split: option.splits)

lemma get_next_reminder_succeeds:
  "strptime_hms (schedule med) \<noteq> None \<Longrightarrow> 0 \<le> day now \<Longrightarrow> day now < max_ordinal \<Longrightarrow>
   \<exists>r. get_next_reminder now med = Inr r"
  by (auto simp: get_next_reminder_eq)

lemma medication_events_succeeds:
  assumes "strptime_hms (schedule med) \<noteq> None" "0 \<le> day now" "day now < max_ordinal"
    and "\<And>st. stock med = Some st \<Longrightarrow> \<exists>r. refill_start now st = Inr r"
  shows "\<exists>es. medication_events ss now med = Inr es"
proof -
  obtain r where r: "get_next_reminder now med = Inr r"
    using get_next_reminder_succeeds [OF assms(1-3)] by blast
  show ?thesis
  proof (cases "stock med")
    case None
    with r show ?thesis by (simp add: medication_events_def)
  next
    case (Some st)
    with assms(4) obtain x where "refill_start now st = Inr x" by blast
    with r Some show ?thesis
      by (cases x) (simp_all add: medication_events_def)
  qed
qed

lemma appointment_event_succeeds:
  "fromiso (date_time a) \<noteq> None \<Longrightarrow> \<exists>es. appointment_event fromiso a = Inr es"
  by (auto simp: appointment_event_def)

lemma is_selected_eq:
  "is_selected sel
     = (\<lambda>med. case sel of None \<Rightarrow> True | Some ns \<Rightarrow> ns = [] \<or> name med \<in> set ns)"
  by (rule ext) (simp add: is_selected_def)

lemma generate_calendar_recurring:
  assumes "generate_calendar fromiso ss now doc sel = Inr cal"
  shows "map (\<lambda>e. (summary e, recurrence e)) (filter (\<lambda>e. recurrence e \<noteq> None) cal)
        = map (\<lambda>med. (''Take '' @ name med, Some (rrule_of (frequency_of ss med))))
            (filter (is_selected sel) (medications doc))"
proof -
  let ?meds = "filter (is_selected sel) (medications doc)"
  let ?R = "\<lambda>e. recurrence e \<noteq> None"
  let ?k = "\<lambda>e. (summary e, recurrence e)"
  from assms obtain c1 c2 where
    c1: "collect (medication_events ss now) ?meds = Inr c1" and
    c2: "collect (appointment_event fromiso) (appointments doc) = Inr c2" and
    cal: "cal = c1 @ c2"
    by (auto simp: generate_calendar_def split: sum.splits)
  have "map ?k (filter ?R c1)
          = map (\<lambda>med. (''Take '' @ name med, Some (rrule_of (frequency_of ss med)))) ?meds"
    using c1 by (rule collect_map_filter [rotated]) (rule medication_events_recurring)
  moreover have "filter ?R c2 = []"
    using c2 by (rule collect_filter_none [rotated]) (rule appointment_event_not_recurring)
  ultimately show ?thesis
    by (simp add: cal)
qed

lemma generate_calendar_succeeds:
  assumes "0 \<le> day now" and "day now < max_ordinal"
    and "\<And>med st. med \<in> set (filter (is_selected sel) (medications doc)) \<Longrightarrow>
           strptime_hms (schedule med) \<noteq> None
           \<and> (stock med = Some st \<longrightarrow> (\<exists>r. refill_start now st = Inr r))"
    and "\<And>a. a \<in> set (appointments doc) \<Longrightarrow> fromiso (date_time a) \<noteq> None"
  shows "\<exists>evs. generate_calendar fromiso ss now doc sel = Inr evs"
proof -
  let ?meds = "filter (is_selected sel) (medications doc)"
  have "\<exists>c1. collect (medication_events ss now) ?meds = Inr c1"
  proof (rule collect_succeeds)
    fix x assume "x \<in> set ?meds"
    with assms(1-3) show "\<exists>es. medication_events ss now x = Inr es"
      by (intro medication_events_succeeds) blast+
  qed
  moreover have "\<exists>c2. collect (appointment_event fromiso) (appointments doc) = Inr c2"
  proof (rule collect_succeeds)
    fix x assume "x \<in> set (appointments doc)"
    with assms(4) show "\<exists>es. appointment_event fromiso x = Inr es"
      by (intro appointment_event_succeeds) blast
  qed
  ultimately show ?thesis
    by (auto simp: generate_calendar_def)
qed

lemma generate_calendar_bad_schedule:
  assumes "med \<in> set (filter (is_selected sel) (medications doc))"
    and "strptime_hms (schedule med) = None"
  shows "\<exists>e. generate_calendar fromiso ss now doc sel = Inl e"
proof -
  from assms(2) have "medication_events ss now med = Inl ValueError"
    by (rule medication_events_bad_schedule)
  from collect_fails [of med _ "medication_events ss now", OF assms(1) this]
  show ?thesis
    by (auto simp: generate_calendar_def)
qed

text \<open>
  Claim C5, for the runs that return a calendar. The selected medications are all of them
  when no name is selected, and otherwise those whose name is among the selected names.
  When \<^verbatim>\<open>generate_calendar\<close> returns, its recurring events are, in order, one event per
  selected medication, titled "Take" followed by the medication's name, with the rule
  chosen by the configured frequency: daily with interval 2 for \<^verbatim>\<open>every_other_day\<close>,
  weekly on Monday for \<^verbatim>\<open>weekly\<close>, plain daily for any other value and for a missing
  entry. It returns whenever every selected medication has a schedule that parses and a
  refill computation that succeeds, every appointment has a \<^verbatim>\<open>date_time\<close> that parses and
  today is not the last day of the calendar; it raises, and so emits no event at all, as
  soon as one selected medication has a schedule that does not parse. In particular a
  single selected medication with the schedule "08:00:00", the frequency \<^verbatim>\<open>weekly\<close> and
  no stock, in a document without appointments, gives exactly one event, with the weekly
  Monday rule, and no refill event, on every day but the last of the calendar.
\<close>

theorem generate_calendar_take_events:
  "(generate_calendar fromiso ss now doc sel = Inr cal \<longrightarrow>
      map (\<lambda>e. (summary e, recurrence e)) (filter (\<lambda>e. recurrence e \<noteq> None) cal)
        = map (\<lambda>med. (''Take '' @ name med,
                 Some (let f = (case ss (''freq_'' @ name med) of
                                  None \<Rightarrow> ''daily'' | Some f \<Rightarrow> f)
                       in if f = ''every_other_day''
                            then \<lparr>freq = ''daily'', interval = Some 2, byday = None\<rparr>
                          else if f = ''weekly''
                            then \<lparr>freq = ''weekly'', interval = None, byday = Some ''MO''\<rparr>
                          else \<lparr>freq = ''daily'', interval = None, byday = None\<rparr>)))
            (filter (\<lambda>med. case sel of None \<Rightarrow> True
                                | Some ns \<Rightarrow> ns = [] \<or> name med \<in> set ns)
               (medications doc)))
   \<and> (0 \<le> day now \<and> day now < max_ordinal
       \<and> (\<forall>med\<in>set (filter (\<lambda>med. case sel of None \<Rightarrow> True
                                      | Some ns \<Rightarrow> ns = [] \<or> name med \<in> set ns)
                       (medications doc)).
          strptime_hms (schedule med) \<noteq> None
          \<and> (\<forall>st. stock med = Some st \<longrightarrow> (\<exists>r. refill_start now st = Inr r)))
       \<and> (\<forall>a\<in>set (appointments doc). fromiso (date_time a) \<noteq> None)
       \<longrightarrow> (\<exists>evs. generate_calendar fromiso ss now doc sel = Inr evs))
   \<and> ((\<exists>med\<in>set (filter (\<lambda>med. case sel of None \<Rightarrow> True
                                      | Some ns \<Rightarrow> ns = [] \<or> name med \<in> set ns)
                       (medications doc)).
          strptime_hms (schedule med) = None)
       \<longrightarrow> (\<exists>e. generate_calendar fromiso ss now doc sel = Inl e))
   \<and> (0 \<le> day now \<and> day now < max_ordinal
       \<and> (case sel of None \<Rightarrow> True | Some ns \<Rightarrow> ns = [] \<or> n \<in> set ns) \<longrightarrow>
        generate_calendar fromiso (ss(''freq_'' @ n \<mapsto> ''weekly'')) now
          \<lparr>medications = [\<lparr>name = n, schedule = ''08:00:00'', stock = None\<rparr>],
           appointments = []\<rparr> sel
        = Inr [\<lparr>summary = ''Take '' @ n,
                 dtstart = (if dt_less (combine (day now) 28800000000) now
                            then combine (day now + 1) 28800000000
                            else combine (day now) 28800000000),
                 recurrence = Some \<lparr>freq = ''weekly'', interval = None, byday = Some ''MO''\<rparr>\<rparr>])"
proof (intro conjI impI)
  assume "generate_calendar fromiso ss now doc sel = Inr cal"
  from generate_calendar_recurring [OF this]
  show "map (\<lambda>e. (summary e, recurrence e)) (filter (\<lambda>e. recurrence e \<noteq> None) cal)
        = map (\<lambda>med. (''Take '' @ name med,
                 Some (let f = (case ss (''freq_'' @ name med) of
                                  None \<Rightarrow> ''daily'' | Some f \<Rightarrow> f)
                       in if f = ''every_other_day''
                            then \<lparr>freq = ''daily'', interval = Some 2, byday = None\<rparr>
                          else if f = ''weekly''
                            then \<lparr>freq = ''weekly'', interval = None, byday = Some ''MO''\<rparr>
                          else \<lparr>freq = ''daily'', interval = None, byday = None\<rparr>)))
            (filter (\<lambda>med. case sel of None \<Rightarrow> True
                                | Some ns \<Rightarrow> ns = [] \<or> name med \<in> set ns)
               (medications doc))"
    unfolding is_selected_eq by (simp add: rrule_of_def frequency_of_def Let_def)
next
  assume a: "0 \<le> day now \<and> day now < max_ordinal
       \<and> (\<forall>med\<in>set (filter (\<lambda>med. case sel of None \<Rightarrow> True
                                      | Some ns \<Rightarrow> ns = [] \<or> name med \<in> set ns)
                       (medications doc)).
          strptime_hms (schedule med) \<noteq> None
          \<and> (\<forall>st. stock med = Some st \<longrightarrow> (\<exists>r. refill_start now st = Inr r)))
       \<and> (\<forall>a\<in>set (appointments doc). fromiso (date_time a) \<noteq> None)"
  show "\<exists>evs. generate_calendar fromiso ss now doc sel = Inr evs"
  proof (rule generate_calendar_succeeds)
    from a show "0 \<le> day now" and "day now < max_ordinal" by simp_all
  next
    fix med st assume "med \<in> set (filter (is_selected sel) (medications doc))"
    with a show "strptime_hms (schedule med) \<noteq> None
           \<and> (stock med = Some st \<longrightarrow> (\<exists>r. refill_start now st = Inr r))"
      unfolding is_selected_eq by blast
  next
    fix x assume "x \<in> set (appointments doc)"
    with a show "fromiso (date_time x) \<noteq> None" by blast
  qed
next
  assume "\<exists>med\<in>set (filter (\<lambda>med. case sel of None \<Rightarrow> True
                                      | Some ns \<Rightarrow> ns = [] \<or> name med \<in> set ns)
                       (medications doc)).
          strptime_hms (schedule med) = None"
  then obtain med where
    "med \<in> set (filter (is_selected sel) (medications doc))"
    "strptime_hms (schedule med) = None"
    unfolding is_selected_eq by blast
  then show "\<exists>e. generate_calendar fromiso ss now doc sel = Inl e"
    by (rule generate_calendar_bad_schedule)
next
  assume "0 \<le> day now \<and> day now < max_ordinal
       \<and> (case sel of None \<Rightarrow> True | Some ns \<Rightarrow> ns = [] \<or> n \<in> set ns)"
  then show "generate_calendar fromiso (ss(''freq_'' @ n \<mapsto> ''weekly'')) now
          \<lparr>medications = [\<lparr>name = n, schedule = ''08:00:00'', stock = None\<rparr>],
           appointments = []\<rparr> sel
        = Inr [\<lparr>summary = ''Take '' @ n,
                 dtstart = (if dt_less (combine (day now) 28800000000) now
                            then combine (day now + 1) 28800000000
                            else combine (day now) 28800000000),
                 recurrence = Some \<lparr>freq = ''weekly'', interval = None, byday = Some ''MO''\<rparr>\<rparr>]"
    by (cases sel)
      (simp_all add: generate_calendar_def medication_events_def get_next_reminder_def
        strptime_0800 frequency_of_def rrule_of_def add_days_def combine_def is_selected_def)
qed

theorem generate_calendar_take_events_witness:
  "generate_calendar (\<lambda>s. None) [''freq_X'' \<mapsto> ''weekly'']
     \<lparr>day = 739252, usec = 43200000000\<rparr>
     \<lparr>medications = [\<lparr>name = ''X'', schedule = ''08:00:00'', stock = None\<rparr>],
      appointments = []\<rparr> None
   = Inr [\<lparr>summary = ''Take X'', dtstart = \<lparr>day = 739253, usec = 28800000000\<rparr>,
           recurrence = Some \<lparr>freq = ''weekly'', interval = None, byday = Some ''MO''\<rparr>\<rparr>]
   \<and> generate_calendar (\<lambda>s. None) [''freq_X'' \<mapsto> ''weekly'']
     \<lparr>day = 739252, usec = 43200000000\<rparr>
     \<lparr>medications = [\<lparr>name = ''X'', schedule = ''08:00:00'', stock = None\<rparr>],
      appointments = []\<rparr> (Some [''X''])
   = Inr [\<lparr>summary = ''Take X'', dtstart = \<lparr>day = 739253, usec = 28800000000\<rparr>,
           recurrence = Some \<lparr>freq = ''weekly'', interval = None, byday = Some ''MO''\<rparr>\<rparr>]
   \<and> (\<exists>cal. generate_calendar (\<lambda>s. None) [''freq_Y'' \<mapsto> ''every_other_day'']
          \<lparr>day = 739252, usec = 43200000000\<rparr>
          \<lparr>medications = [\<lparr>name = ''X'', schedule = ''08:00:00'', stock = None\<rparr>,
                          \<lparr>name = ''Y'', schedule = ''21:30:00'', stock = None\<rparr>,
                          \<lparr>name = ''Z'', schedule = ''8am'', stock = None\<rparr>],
           appointments = []\<rparr> (Some [''Y'', ''X'']) = Inr cal
        \<and> map (\<lambda>e. (summary e, recurrence e)) (filter (\<lambda>e. recurrence e \<noteq> None) cal)
          = [(''Take X'', Some \<lparr>freq = ''daily'', interval = None, byday = None\<rparr>),
             (''Take Y'', Some \<lparr>freq = ''daily'', interval = Some 2, byday = None\<rparr>)])"
proof (intro conjI)
  show "generate_calendar (\<lambda>s. None) [''freq_X'' \<mapsto> ''weekly'']
     \<lparr>day = 739252, usec = 43200000000\<rparr>
     \<lparr>medications = [\<lparr>name = ''X'', schedule = ''08:00:00'', stock = None\<rparr>],
      appointments = []\<rparr> None
   = Inr [\<lparr>summary = ''Take X'', dtstart = \<lparr>day = 739253, usec = 28800000000\<rparr>,
           recurrence = Some \<lparr>freq = ''weekly'', interval = None, byday = Some ''MO''\<rparr>\<rparr>]"
    using generate_calendar_take_events
      [where n = "''X''" and sel = None and ss = Map.empty and fromiso = "\<lambda>s. None"
         and now = "\<lparr>day = 739252, usec = 43200000000\<rparr>"]
    by (simp add: dt_less_def combine_def max_ordinal_def)
next
  show "generate_calendar (\<lambda>s. None) [''freq_X'' \<mapsto> ''weekly'']
     \<lparr>day = 739252, usec = 43200000000\<rparr>
     \<lparr>medications = [\<lparr>name = ''X'', schedule = ''08:00:00'', stock = None\<rparr>],
      appointments = []\<rparr> (Some [''X''])
   = Inr [\<lparr>summary = ''Take X'', dtstart = \<lparr>day = 739253, usec = 28800000000\<rparr>,
           recurrence = Some \<lparr>freq = ''weekly'', interval = None, byday = Some ''MO''\<rparr>\<rparr>]"
    using generate_calendar_take_events
      [where n = "''X''" and sel = "Some [''X'']" and ss = Map.empty
         and fromiso = "\<lambda>s. None" and now = "\<lparr>day = 739252, usec = 43200000000\<rparr>"]
    by (simp add: dt_less_def combine_def max_ordinal_def)
next
  let ?doc = "\<lparr>medications = [\<lparr>name = ''X'', schedule = ''08:00:00'', stock = None\<rparr>,
                          \<lparr>name = ''Y'', schedule = ''21:30:00'', stock = None\<rparr>,
                          \<lparr>name = ''Z'', schedule = ''8am'', stock = None\<rparr>],
           appointments = []\<rparr>"
  let ?ss = "[''freq_Y'' \<mapsto> ''every_other_day'']"
  let ?now = "\<lparr>day = 739252, usec = 43200000000\<rparr>"
  have s: "strptime_hms ''21:30:00'' \<noteq> None"
    by (simp add: strptime_hms_def not_colon_def is_digit_def digit_val_def)
  note t = generate_calendar_take_events
      [where sel = "Some [''Y'', ''X'']" and ss = ?ss and fromiso = "\<lambda>s. None"
         and now = ?now and doc = ?doc]
  from t [THEN conjunct2, THEN conjunct1] s
  obtain cal where c: "generate_calendar (\<lambda>s. None) ?ss ?now ?doc (Some [''Y'', ''X'']) = Inr cal"
    by (auto simp: max_ordinal_def strptime_0800)
  from t [of cal, THEN conjunct1] c
  have m: "map (\<lambda>e. (summary e, recurrence e)) (filter (\<lambda>e. recurrence e \<noteq> None) cal)
          = [(''Take X'', Some \<lparr>freq = ''daily'', interval = None, byday = None\<rparr>),
             (''Take Y'', Some \<lparr>freq = ''daily'', interval = Some 2, byday = None\<rparr>)]"
    by simp
  show "\<exists>cal. generate_calendar (\<lambda>s. None) ?ss ?now ?doc (Some [''Y'', ''X'']) = Inr cal
        \<and> map (\<lambda>e. (summary e, recurrence e)) (filter (\<lambda>e. recurrence e \<noteq> None) cal)
          = [(''Take X'', Some \<lparr>freq = ''daily'', interval = None, byday = None\<rparr>),
             (''Take Y'', Some \<lparr>freq = ''daily'', interval = Some 2, byday = None\<rparr>)]"
  proof (intro exI conjI)
    show "generate_calendar (\<lambda>s. None) ?ss ?now ?doc (Some [''Y'', ''X'']) = Inr cal"
      by (rule c)
    show "map (\<lambda>e. (summary e, recurrence e)) (filter (\<lambda>e. recurrence e \<noteq> None) cal)
          = [(''Take X'', Some \<lparr>freq = ''daily'', interval = None, byday = None\<rparr>),
             (''Take Y'', Some \<lparr>freq = ''daily'', interval = Some 2, byday = None\<rparr>)]"
      by (rule m)
  qed
qed

text \<open>
  The claim as the specification words it, an event for every selected medication, fails
  when calendar generation raises: with a medication scheduled "08:00:00" beside one
  scheduled "8am", both accepted by \<^verbatim>\<open>validate_medication\<close>, no calendar is produced, and
  so no event for either.
\<close>

theorem generate_calendar_counterexample:
  "generate_calendar (\<lambda>s. None) Map.empty \<lparr>day = 739252, usec = 0\<rparr>
     \<lparr>medications = [\<lparr>name = ''X'', schedule = ''08:00:00'', stock = None\<rparr>,
                     \<lparr>name = ''A'', schedule = ''8am'', stock = None\<rparr>],
      appointments = []\<rparr> None
   = Inl ValueError"
  by (simp add: generate_calendar_def is_selected_def medication_events_def
      get_next_reminder_def strptime_0800 strptime_8am dt_less_def combine_def
      frequency_of_def rrule_of_def)

lemma collect_map:
  assumes "\<And>x es. f x = Inr es \<Longrightarrow> map k es = [h x]"
  shows "collect f xs = Inr ys \<Longrightarrow> map k ys = map h xs"
proof (induction xs arbitrary: ys)
  case Nil
  then show ?case by simp
next
  case (Cons x xs)
  then obtain es rest where e: "f x = Inr es" "collect f xs = Inr rest" "ys = es @ rest"
    by (auto split: sum.splits)
  with Cons.IH [of rest] assms [of x es] show ?case by simp
qed

lemma appointment_event_title:
  "appointment_event fromiso a = Inr es \<Longrightarrow>
     map summary es
       = [case description a of None \<Rightarrow> ''Doctor Appointment'' | Some d \<Rightarrow> d]"
  by (auto simp: appointment_event_def split: option.splits)

lemma home_appointment_entry_title:
  "home_appointment_entry fromiso a = Inr es \<Longrightarrow>
     map snd es
       = [case description a of None \<Rightarrow> ''Doctor Appointment'' | Some d \<Rightarrow> d]"
  by (auto simp: home_appointment_entry_def split: option.splits)

lemma collect_appointment_titles:
  assumes "collect (appointment_event fromiso) appts = Inr es"
  shows "map summary es
       = map (\<lambda>a. case description a of None \<Rightarrow> ''Doctor Appointment'' | Some d \<Rightarrow> d) appts"
  using assms by (rule collect_map [rotated]) (rule appointment_event_title)

lemma collect_home_appointment_titles:
  assumes "collect (home_appointment_entry fromiso) appts = Inr es"
  shows "map snd es
       = map (\<lambda>a. case description a of None \<Rightarrow> ''Doctor Appointment'' | Some d \<Rightarrow> d) appts"
  using assms by (rule collect_map [rotated]) (rule home_appointment_entry_title)

lemma drop_to_suffix: "length ys = n \<Longrightarrow> drop (length (xs @ ys) - n) (xs @ ys) = ys"
  by simp

lemma generate_calendar_appointment_titles:
  assumes "generate_calendar fromiso ss now doc sel = Inr cal"
  shows "map summary (drop (length cal - length (appointments doc)) cal)
        = map (\<lambda>a. case description a of None \<Rightarrow> ''Doctor Appointment'' | Some d \<Rightarrow> d)
            (appointments doc)"
proof -
  let ?title = "\<lambda>a. case description a of None \<Rightarrow> ''Doctor Appointment'' | Some d \<Rightarrow> d"
  from assms obtain c1 c2 where
    c2: "collect (appointment_event fromiso) (appointments doc) = Inr c2" and
    cal: "cal = c1 @ c2"
    by (auto simp: generate_calendar_def split: sum.splits)
  from collect_appointment_titles [OF c2]
  have t: "map summary c2 = map ?title (appointments doc)" .
  then have "length c2 = length (appointments doc)"
    by (metis length_map)
  then have "drop (length cal - length (appointments doc)) cal = c2"
    unfolding cal by (rule drop_to_suffix)
  with t show ?thesis
    by simp
qed

lemma upcoming_events_appointment_titles:
  assumes "upcoming_events fromiso now doc = Inr es"
  shows "map snd (drop (length es - length (appointments doc)) es)
        = map (\<lambda>a. case description a of None \<Rightarrow> ''Doctor Appointment'' | Some d \<Rightarrow> d)
            (appointments doc)"
proof -
  let ?title = "\<lambda>a. case description a of None \<Rightarrow> ''Doctor Appointment'' | Some d \<Rightarrow> d"
  from assms obtain c1 c2 where
    c2: "collect (home_appointment_entry fromiso) (appointments doc) = Inr c2" and
    es: "es = c1 @ c2"
    by (auto simp: upcoming_events_def split: sum.splits)
  from collect_home_appointment_titles [OF c2]
  have t: "map snd c2 = map ?title (appointments doc)" .
  then have "length c2 = length (appointments doc)"
    by (metis length_map)
  then have "drop (length es - length (appointments doc)) es = c2"
    unfolding es by (rule drop_to_suffix)
  with t show ?thesis
    by simp
qed

text \<open>
  Claim C6: the default title is not applied to a blank description. The title of an
  appointment's event is read with \<^verbatim>\<open>appt.get('description', 'Doctor Appointment')\<close>, and
  the default stands in for a missing \<^verbatim>\<open>description\<close> key only. Whenever
  \<^verbatim>\<open>generate_calendar\<close> returns, the last events of the calendar are those of the
  appointments, in order, each titled by its description when it has one, empty or not,
  and "Doctor Appointment" when it has none; the entries of the Home page's list are
  titled in the same way. So an appointment that has a description \<open>d\<close> and a
  \<^verbatim>\<open>date_time\<close> that parses gets an event and a Home entry titled \<open>d\<close>, also when \<open>d\<close> is
  the empty string: this is the appointment that the page "Doctor Appointments" creates
  (\<^verbatim>\<open>"description": ""\<close>) and rewrites on every run
  (\<^verbatim>\<open>appt['description'] = description\<close>), so the default never shows for an appointment
  entered in the program.
\<close>

theorem appointment_titles:
  "(generate_calendar fromiso ss now doc sel = Inr cal \<longrightarrow>
      map summary (drop (length cal - length (appointments doc)) cal)
        = map (\<lambda>a. case description a of None \<Rightarrow> ''Doctor Appointment'' | Some d \<Rightarrow> d)
            (appointments doc))
   \<and> (upcoming_events fromiso now doc = Inr es \<longrightarrow>
      map snd (drop (length es - length (appointments doc)) es)
        = map (\<lambda>a. case description a of None \<Rightarrow> ''Doctor Appointment'' | Some d \<Rightarrow> d)
            (appointments doc))
   \<and> (description a = Some d \<and> fromiso (date_time a) = Some t \<longrightarrow>
        generate_calendar fromiso ss now \<lparr>medications = [], appointments = [a]\<rparr> sel
          = Inr [\<lparr>summary = d, dtstart = t, recurrence = None\<rparr>]
        \<and> upcoming_events fromiso now \<lparr>medications = [], appointments = [a]\<rparr>
          = Inr [(t, d)])"
proof (intro conjI impI)
  assume "generate_calendar fromiso ss now doc sel = Inr cal"
  then show "map summary (drop (length cal - length (appointments doc)) cal)
        = map (\<lambda>a. case description a of None \<Rightarrow> ''Doctor Appointment'' | Some d \<Rightarrow> d)
            (appointments doc)"
    by (rule generate_calendar_appointment_titles)
next
  assume "upcoming_events fromiso now doc = Inr es"
  then show "map snd (drop (length es - length (appointments doc)) es)
        = map (\<lambda>a. case description a of None \<Rightarrow> ''Doctor Appointment'' | Some d \<Rightarrow> d)
            (appointments doc)"
    by (rule upcoming_events_appointment_titles)
next
  assume "description a = Some d \<and> fromiso (date_time a) = Some t"
  then show "generate_calendar fromiso ss now \<lparr>medications = [], appointments = [a]\<rparr> sel
          = Inr [\<lparr>summary = d, dtstart = t, recurrence = None\<rparr>]"
    by (simp add: generate_calendar_def appointment_event_def)
next
  assume "description a = Some d \<and> fromiso (date_time a) = Some t"
  then show "upcoming_events fromiso now \<lparr>medications = [], appointments = [a]\<rparr>
          = Inr [(t, d)]"
    by (simp add: upcoming_events_def home_appointment_entry_def)
qed

theorem appointment_titles_witness:
  "generate_calendar (fromisoformat (\<lambda>s. None)) Map.empty \<lparr>day = 739000, usec = 0\<rparr>
     \<lparr>medications = [],
      appointments = [\<lparr>date_time = ''2025-01-01T09:00:00'', description = Some ''''\<rparr>]\<rparr>
     None
   = Inr [\<lparr>summary = '''', dtstart = \<lparr>day = 739252, usec = 32400000000\<rparr>,
           recurrence = None\<rparr>]
   \<and> upcoming_events (fromisoformat (\<lambda>s. None)) \<lparr>day = 739000, usec = 0\<rparr>
     \<lparr>medications = [],
      appointments = [\<lparr>date_time = ''2025-01-01T09:00:00'', description = Some ''''\<rparr>]\<rparr>
   = Inr [(\<lparr>day = 739252, usec = 32400000000\<rparr>, '''')]
   \<and> generate_calendar (fromisoformat (\<lambda>s. None)) Map.empty \<lparr>day = 739000, usec = 0\<rparr>
     \<lparr>medications = [],
      appointments = [\<lparr>date_time = ''2025-01-01T09:00:00'', description = None\<rparr>,
                      \<lparr>date_time = ''2025-01-01T09:00:00'', description = Some ''Dentist''\<rparr>]\<rparr>
     None
   = Inr [\<lparr>summary = ''Doctor Appointment'',
            dtstart = \<lparr>day = 739252, usec = 32400000000\<rparr>, recurrence = None\<rparr>,
          \<lparr>summary = ''Dentist'',
            dtstart = \<lparr>day = 739252, usec = 32400000000\<rparr>, recurrence = None\<rparr>]"
proof (intro conjI)
  note blank = appointment_titles
    [where fromiso = "fromisoformat (\<lambda>s. None)" and ss = Map.empty
       and now = "\<lparr>day = 739000, usec = 0\<rparr>" and sel = None
       and a = "\<lparr>date_time = ''2025-01-01T09:00:00'', description = Some ''''\<rparr>"
       and d = "''''" and t = "\<lparr>day = 739252, usec = 32400000000\<rparr>",
     THEN conjunct2, THEN conjunct2]
  from blank show "generate_calendar (fromisoformat (\<lambda>s. None)) Map.empty
     \<lparr>day = 739000, usec = 0\<rparr>
     \<lparr>medications = [],
      appointments = [\<lparr>date_time = ''2025-01-01T09:00:00'', description = Some ''''\<rparr>]\<rparr>
     None
   = Inr [\<lparr>summary = '''', dtstart = \<lparr>day = 739252, usec = 32400000000\<rparr>,
           recurrence = None\<rparr>]"
    by (simp add: fromisoformat_2025_01_01T09_00_00)
  from blank show "upcoming_events (fromisoformat (\<lambda>s. None)) \<lparr>day = 739000, usec = 0\<rparr>
     \<lparr>medications = [],
      appointments = [\<lparr>date_time = ''2025-01-01T09:00:00'', description = Some ''''\<rparr>]\<rparr>
   = Inr [(\<lparr>day = 739252, usec = 32400000000\<rparr>, '''')]"
    by (simp add: fromisoformat_2025_01_01T09_00_00)
  show "generate_calendar (fromisoformat (\<lambda>s. None)) Map.empty \<lparr>day = 739000, usec = 0\<rparr>
     \<lparr>medications = [],
      appointments = [\<lparr>date_time = ''2025-01-01T09:00:00'', description = None\<rparr>,
                      \<lparr>date_time = ''2025-01-01T09:00:00'', description = Some ''Dentist''\<rparr>]\<rparr>
     None
   = Inr [\<lparr>summary = ''Doctor Appointment'',
            dtstart = \<lparr>day = 739252, usec = 32400000000\<rparr>, recurrence = None\<rparr>,
          \<lparr>summary = ''Dentist'',
            dtstart = \<lparr>day = 739252, usec = 32400000000\<rparr>, recurrence = None\<rparr>]"
    using appointment_titles
      [where fromiso = "fromisoformat (\<lambda>s. None)" and ss = Map.empty
         and now = "\<lparr>day = 739000, usec = 0\<rparr>" and sel = None
         and doc = "\<lparr>medications = [],
            appointments = [\<lparr>date_time = ''2025-01-01T09:00:00'', description = None\<rparr>,
                      \<lparr>date_time = ''2025-01-01T09:00:00'', description = Some ''Dentist''\<rparr>]\<rparr>"]
    by (simp add: generate_calendar_def appointment_event_def
        fromisoformat_2025_01_01T09_00_00)
qed

section \<open>Properties of the store\<close>

text \<open>
  \<^verbatim>\<open>load_data\<close> of \<^verbatim>\<open>app.py\<close>, when it runs its body (nothing cached yet): a missing
  file and a file that is not JSON both give the empty document and one error message,
  and a file holding a document gives that document.
\<close>

lemma load_data_missing_or_malformed:
  assumes "cache w = None"
  shows "(backing_file w = Absent \<longrightarrow>
            load_data w = (empty_document,
              w\<lparr>cache := Some (empty_document,
                     [Error ''Data file not found. Starting with empty data.'']),
                 shown := shown w @ [Error ''Data file not found. Starting with empty data.'']\<rparr>))
       \<and> (backing_file w = Garbled \<longrightarrow>
            load_data w = (empty_document,
              w\<lparr>cache := Some (empty_document,
                     [Error ''Error parsing JSON file. Please check the format.'']),
                 shown := shown w @ [Error ''Error parsing JSON file. Please check the format.'']\<rparr>))
       \<and> (backing_file w = Holds d \<longrightarrow> fst (load_data w) = d)"
  using assms by (simp add: load_data_def load_data_body_def)

lemma load_data_cached:
  "cache w = Some (d, msgs) \<Longrightarrow> load_data w = (d, w\<lparr>shown := shown w @ msgs\<rparr>)"
  by (simp add: load_data_def)

lemma cache_after_load_data:
  "\<exists>msgs. cache (snd (load_data w)) = Some (fst (load_data w), msgs)"
  by (cases "cache w") (auto simp: load_data_def split: prod.splits)

lemma cache_save_data: "cache (save_data d w) = cache w"
  by (simp add: save_data_def)

text \<open>
  Claim C2, on \<^verbatim>\<open>load_data\<close> of \<^verbatim>\<open>pa.py\<close>. Whatever the rest of the environment is, a
  file that is not JSON makes it raise \<^verbatim>\<open>JSONDecodeError\<close>: it catches
  \<^verbatim>\<open>FileNotFoundError\<close> only. A missing file gives the empty document (and no message,
  the function having none to give).
\<close>

theorem pa_load_data_malformed_raises:
  "pa_load_data (w\<lparr>backing_file := Garbled\<rparr>) = Inl JSONDecodeError
   \<and> pa_load_data (w\<lparr>backing_file := Absent\<rparr>) = Inr empty_document"
  by (simp add: pa_load_data_def)

text \<open>
  The round trip where it holds. With \<^verbatim>\<open>pa.py\<close>, a \<^verbatim>\<open>save_data\<close> that returns is
  followed by a \<^verbatim>\<open>load_data\<close> that gives the saved document. With \<^verbatim>\<open>app.py\<close> the same
  holds when the file can be written and \<^verbatim>\<open>load_data\<close> has nothing cached.
\<close>

lemma pa_round_trip:
  "pa_save_data d w = Inr w' \<Longrightarrow> pa_load_data w' = Inr d"
  by (auto simp: pa_save_data_def pa_load_data_def split: if_splits)

lemma round_trip_first_load:
  "writable w \<Longrightarrow> cache w = None \<Longrightarrow> fst (load_data (save_data d w)) = d"
  by (simp add: save_data_def load_data_def load_data_body_def)

text \<open>
  Claim C9, on \<^verbatim>\<open>app.py\<close>. Once \<^verbatim>\<open>load_data\<close> has been called, saving any document
  \<open>d\<close> and loading again gives the document of the first call, not \<open>d\<close>: the second
  call is answered from the cache of \<^verbatim>\<open>@st.cache_data\<close> and the file is not read.
\<close>

theorem load_after_save_is_cached:
  "fst (load_data (save_data d (snd (load_data w)))) = fst (load_data w)"
proof -
  obtain msgs where "cache (snd (load_data w)) = Some (fst (load_data w), msgs)"
    using cache_after_load_data by blast
  then have "cache (save_data d (snd (load_data w))) = Some (fst (load_data w), msgs)"
    by (simp add: cache_save_data)
  then show ?thesis
    by (simp add: load_data_cached)
qed

theorem load_after_save_is_cached_example:
  "fst (load_data (save_data
     \<lparr>medications = [\<lparr>name = ''Aspirin'', schedule = ''08:00:00'', stock = None\<rparr>],
      appointments = []\<rparr>
     (snd (load_data \<lparr>backing_file = Absent, writable = True, cache = None, shown = []\<rparr>))))
   = empty_document
   \<and> backing_file (save_data
     \<lparr>medications = [\<lparr>name = ''Aspirin'', schedule = ''08:00:00'', stock = None\<rparr>],
      appointments = []\<rparr>
     (snd (load_data \<lparr>backing_file = Absent, writable = True, cache = None, shown = []\<rparr>)))
   = Holds \<lparr>medications = [\<lparr>name = ''Aspirin'', schedule = ''08:00:00'', stock = None\<rparr>],
            appointments = []\<rparr>"
  using load_after_save_is_cached
    [of "\<lparr>medications = [\<lparr>name = ''Aspirin'', schedule = ''08:00:00'', stock = None\<rparr>],
          appointments = []\<rparr>"
        "\<lparr>backing_file = Absent, writable = True, cache = None, shown = []\<rparr>"]
  by (simp add: load_data_def load_data_body_def save_data_def)

section \<open>Properties of the import\<close>

text \<open>
  Claim C1, on the code. Every upload that decodes as JSON ends the run of the script at
  the \<^verbatim>\<open>st.stop()\<close> that follows the shape check: with the error message when the shape
  is wrong, silently when it is right. In both cases the session's document and the file
  are as they were, so a well-formed upload is never imported; the validation loops,
  the assignment to \<^verbatim>\<open>st.session_state.data\<close> and \<^verbatim>\<open>save_data\<close> are never reached.
\<close>

theorem import_never_applies:
  "export_import_page fromiso (Decoded new_data) s
     = Stopped (if has_shape new_data then s
                else st_error ''Invalid data format. Please upload a valid MediRemind JSON file.'' s)"
  by (simp add: export_import_page_def import_handler_def import_try_def st_stop_def)

theorem import_never_applies_example:
  "export_import_page (\<lambda>s. None)
     (Decoded (Dict (Some [\<lparr>name = ''Aspirin'', schedule = ''08:00:00'', stock = None\<rparr>])
                    (Some [])))
     \<lparr>data = empty_document,
      world = \<lparr>backing_file = Holds empty_document, writable = True, cache = None, shown = []\<rparr>\<rparr>
   = Stopped
     \<lparr>data = empty_document,
      world = \<lparr>backing_file = Holds empty_document, writable = True, cache = None, shown = []\<rparr>\<rparr>"
  using import_never_applies
    [of "\<lambda>s. None" "Dict (Some [\<lparr>name = ''Aspirin'', schedule = ''08:00:00'', stock = None\<rparr>])
                    (Some [])"]
  by simp

lemma import_undecodable:
  "export_import_page fromiso Undecodable s
     = Running (save_session (st_error ''Invalid JSON file format'' s))"
  by (simp add: export_import_page_def import_handler_def import_try_def)

section \<open>Properties of the refill computation\<close>

text \<open>
  The quotient computed by \<^verbatim>\<open>/\<close> is a float. The lemmas below show that for a
  dividend and a divisor between 1 and \<open>2 ^ 53 - 1\<close> the rounding never crosses an
  integer, so that \<^verbatim>\<open>math.ceil\<close> of the float is the ceiling of the exact quotient.
\<close>

lemma ceil_div_unique:
  fixes m d c :: int
  assumes "0 < d" "(c - 1) * d < m" "m \<le> c * d"
  shows "- ((- m) div d) = c"
proof -
  have "- m = d * (- c) + (c * d - m)" by (simp add: algebra_simps)
  moreover have "0 \<le> c * d - m" using assms by simp
  moreover have "c * d - m < d" using assms by (simp add: algebra_simps)
  ultimately have "(- m) div d = - c"
    by (rule int_div_pos_eq)
  then show ?thesis by simp
qed

lemma round_half_even_bounds:
  assumes "0 < d"
  shows "n div d \<le> round_half_even n d" "round_half_even n d \<le> n div d + 1"
  by (simp_all add: round_half_even_def Let_def)

lemma round_half_even_exact:
  assumes "0 < d" "n mod d = 0"
  shows "round_half_even n d = n div d"
  using assms by (simp add: round_half_even_def Let_def)

lemma round_half_even_up:
  assumes "d < 2 * (n mod d)"
  shows "round_half_even n d = n div d + 1"
  using assms by (simp add: round_half_even_def Let_def)

lemma div_lower:
  fixes N b c :: int
  assumes "0 < b" "c * b \<le> N"
  shows "c \<le> N div b"
proof -
  have "(c * b) div b \<le> N div b"
    using assms by (intro zdiv_mono1) simp_all
  with assms show ?thesis by simp
qed

lemma div_upper:
  fixes N b c :: int
  assumes "0 < b" "N < c * b"
  shows "N div b + 1 \<le> c"
proof -
  have "N = N div b * b + N mod b" by simp
  moreover have "0 \<le> N mod b" using assms(1) by simp
  ultimately have "N div b * b \<le> N" by linarith
  also note assms(2)
  finally have "N div b * b < c * b" .
  with assms(1) have "N div b < c"
    by (simp only: mult_less_cancel_right_pos)
  then show ?thesis by simp
qed

lemma ceil_of_rounded_quotient:
  fixes a b P :: int and k :: nat
  assumes a: "0 < a" "a < 2 * P" and b: "0 < b" and norm: "P * b \<le> a * 2 ^ k"
    and P: "0 < P"
  shows "- ((- round_half_even (a * 2 ^ k) b) div 2 ^ k) = - ((- a) div b)"
proof -
  define n where "n = a div b"
  define r where "r = a mod b"
  have ab: "a = n * b + r" and r0: "0 \<le> r" and rb: "r < b"
    using b by (simp_all add: n_def r_def)
  have p: "(0::int) < 2 ^ k" by simp
  have "a * 2 ^ k < (2 * P) * 2 ^ k"
    using a(2) p by (rule mult_strict_right_mono)
  also have "\<dots> = P * (2 * 2 ^ k)" by simp
  finally have "a * 2 ^ k < P * (2 * 2 ^ k)" .
  with norm have "P * b < P * (2 * 2 ^ k)" by (rule le_less_trans)
  with P have bk: "b < 2 * 2 ^ k"
    by (simp only: mult_less_cancel_left_pos)
  let ?N = "a * 2 ^ k"
  let ?m = "round_half_even ?N b"
  show ?thesis
  proof (cases "r = 0")
    case True
    then have N: "?N = (n * 2 ^ k) * b"
      using ab by (simp add: algebra_simps)
    have "?m = ?N div b"
      using b by (intro round_half_even_exact) (simp_all add: N)
    also have "\<dots> = n * 2 ^ k"
      using b by (simp add: N)
    finally have m: "?m = n * 2 ^ k" .
    have "- ((- ?m) div 2 ^ k) = n"
      using p by (intro ceil_div_unique) (simp_all add: m algebra_simps)
    moreover have "- ((- a) div b) = n"
      using b True ab by (intro ceil_div_unique) (simp_all add: algebra_simps)
    ultimately show ?thesis by simp
  next
    case False
    with r0 have r1: "1 \<le> r" by simp
    have rhs: "- ((- a) div b) = n + 1"
      using b r1 rb ab by (intro ceil_div_unique) (simp_all add: algebra_simps)
    have N: "?N = (n * 2 ^ k) * b + r * 2 ^ k"
      using ab by (simp add: algebra_simps)
    have "r * 2 ^ k < b * 2 ^ k"
      using rb p by (simp add: mult_less_cancel_right)
    then have Nup: "?N < ((n + 1) * 2 ^ k) * b"
      by (simp add: N algebra_simps)
    have "0 \<le> r * 2 ^ k" using r0 by simp
    then have Nlo: "(n * 2 ^ k) * b \<le> ?N"
      by (simp add: N)
    have Qlo: "n * 2 ^ k \<le> ?N div b"
      using b Nlo by (rule div_lower)
    have Qup: "?N div b + 1 \<le> (n + 1) * 2 ^ k"
      using b Nup by (rule div_upper)
    have up: "?m \<le> (n + 1) * 2 ^ k"
      using round_half_even_bounds(2) [OF b, of ?N] Qup by linarith
    have lo: "n * 2 ^ k < ?m"
    proof (cases "n * 2 ^ k < ?N div b")
      case True
      with round_half_even_bounds(1) [OF b, of ?N] show ?thesis by linarith
    next
      case False
      with Qlo have Q: "?N div b = n * 2 ^ k" by simp
      have "?N mod b = ?N - (?N div b) * b"
        by (simp add: minus_div_mult_eq_mod)
      also have "\<dots> = ?N - (n * 2 ^ k) * b"
        by (simp only: Q)
      also have "\<dots> = r * 2 ^ k"
        using N by simp
      finally have R: "?N mod b = r * 2 ^ k" .
      have "1 * 2 ^ k \<le> r * 2 ^ k"
        using r1 by (rule mult_right_mono) simp
      with bk have "b < 2 * (r * 2 ^ k)"
        by linarith
      then have "b < 2 * (?N mod b)"
        by (simp only: R)
      then have "?m = ?N div b + 1"
        by (rule round_half_even_up)
      then show ?thesis by (simp add: Q)
    qed
    have "- ((- ?m) div 2 ^ k) = n + 1"
      using p lo up by (intro ceil_div_unique) (simp_all add: algebra_simps)
    with rhs show ?thesis by simp
  qed
qed

lemma bitlen_range:
  assumes "0 < a" "a < 2 ^ 53"
  shows "1 \<le> bitlen a" "bitlen a \<le> 53"
proof -
  have "bitlen a \<noteq> 0" using assms(1) by (simp add: bitlen_eq_zero_iff)
  with bitlen_nonneg [of a] show "1 \<le> bitlen a" by linarith
  show "bitlen a \<le> 53" using assms(2) by (simp add: bitlen_le_iff_power)
qed

lemma float_exponent_small:
  assumes a: "0 < a" "a < 2 ^ 53" and b: "0 < b" "b < 2 ^ 53"
  shows "\<exists>k::nat. float_exponent a b = - int k \<and> 2 ^ 52 * b \<le> a * 2 ^ k"
proof -
  define la where "la = bitlen a"
  define lb where "lb = bitlen b"
  have la: "1 \<le> la" "la \<le> 53"
    using bitlen_range [OF a] by (simp_all add: la_def)
  have lb: "1 \<le> lb" "lb \<le> 53"
    using bitlen_range [OF b] by (simp_all add: lb_def)
  have alo: "2 ^ nat (la - 1) \<le> a"
    using bitlen_bounds [OF a(1)] by (simp add: la_def)
  have bhi: "b < 2 ^ nat lb"
    using bitlen_bounds [OF b(1)] by (simp add: lb_def)
  define k1 where "k1 = nat (53 + lb - la)"
  have k1: "1 \<le> k1" "k1 \<le> 105" and e1: "la - lb - 53 = - int k1"
    using la lb by (simp_all add: k1_def)
  have sc: "scaled a b (la - lb - 53) = (a * 2 ^ k1, b)"
    using k1 by (simp add: scaled_def e1)
  have ex: "nat (la - 1) + k1 = 52 + nat lb"
    using la lb by (simp add: k1_def)
  have "(2::int) ^ 52 * b < 2 ^ 52 * 2 ^ nat lb"
    using bhi by (simp only: mult_less_cancel_left_pos zero_less_power zero_less_numeral)
  also have "\<dots> = 2 ^ nat (la - 1) * 2 ^ k1"
    by (simp only: power_add [symmetric] ex)
  also have "\<dots> \<le> a * 2 ^ k1"
    using alo by (rule mult_right_mono) simp
  finally have L1: "2 ^ 52 * b < a * 2 ^ k1" .
  show ?thesis
  proof (cases "a * 2 ^ k1 < 2 ^ 53 * b")
    case True
    then have "float_exponent a b = max (- int k1) (- 1074)"
      unfolding float_exponent_def Let_def la_def [symmetric] lb_def [symmetric] sc
      by (simp only: prod.case if_True e1)
    with k1 have "float_exponent a b = - int k1" by simp
    with L1 show ?thesis by (intro exI [of _ k1]) simp
  next
    case False
    then have "float_exponent a b = max (- int k1 + 1) (- 1074)"
      unfolding float_exponent_def Let_def la_def [symmetric] lb_def [symmetric] sc
      by (simp only: prod.case if_False e1)
    with k1 have fe: "float_exponent a b = - int (k1 - 1)" by simp
    from k1 have "a * 2 ^ k1 = 2 * (a * 2 ^ (k1 - 1))"
      by (cases k1) simp_all
    with False have "2 * (2 ^ 52 * b) \<le> 2 * (a * 2 ^ (k1 - 1))" by simp
    then have "2 ^ 52 * b \<le> a * 2 ^ (k1 - 1)" by linarith
    with fe show ?thesis by (intro exI [of _ "k1 - 1"]) simp
  qed
qed

lemma scaled_nonpos: "scaled a b (- int k) = (a * 2 ^ k, b)"
  by (cases "k = 0") (simp_all add: scaled_def)

lemma math_ceil_nonpos: "math_ceil (m, - int k) = - ((- m) div 2 ^ k)"
  by (cases "k = 0") (simp_all add: math_ceil_def)

lemma truediv_small:
  assumes a: "0 < a" "a < 2 ^ 53" and b: "0 < b" "b < 2 ^ 53"
  shows "\<exists>q. truediv a b = Inr q \<and> math_ceil q = - ((- a) div b)"
proof -
  obtain k :: nat where fe: "float_exponent a b = - int k"
    and norm: "2 ^ 52 * b \<le> a * 2 ^ k"
    using float_exponent_small [OF a b] by blast
  define m where "m = round_half_even (a * 2 ^ k) b"
  have no_overflow: "\<not> (0 \<le> - int k \<and> 2 ^ 1024 \<le> m * 2 ^ nat (- int k))"
  proof
    assume o: "0 \<le> - int k \<and> 2 ^ 1024 \<le> m * 2 ^ nat (- int k)"
    then have k0: "k = 0" by simp
    have "a div b \<le> a div 1"
      using a(1) b(1) by (intro zdiv_mono2) simp_all
    then have "a div b \<le> a" by simp
    with round_half_even_bounds(2) [OF b(1), of a] have "round_half_even a b \<le> a + 1"
      by linarith
    with a(2) have "m < 2 ^ 1024"
      by (simp add: m_def k0)
    with o k0 show False by simp
  qed
  have abs: "\<bar>a\<bar> = a" "\<bar>b\<bar> = b" "sgn a = 1" "sgn b = 1" "a \<noteq> 0" "b \<noteq> 0"
    using a(1) b(1) by simp_all
  have "truediv a b = Inr (m, - int k)"
    unfolding truediv_def Let_def abs fe scaled_nonpos prod.case m_def [symmetric]
    using no_overflow by (simp only: abs if_False mult_1)
  moreover have "math_ceil (m, - int k) = - ((- a) div b)"
    unfolding math_ceil_nonpos m_def
    using a(1) _ b(1) norm
  proof (rule ceil_of_rounded_quotient)
    show "a < 2 * 2 ^ 52" using a(2) by simp
    show "(0::int) < 2 ^ 52" by simp
  qed
  ultimately show ?thesis by blast
qed

lemma days_until_low_small:
  assumes "0 < consumption_rate st" "consumption_rate st < 2 ^ 53"
    "0 < current_quantity st - alert_threshold st"
    "current_quantity st - alert_threshold st < 2 ^ 53"
  shows "days_until_low st
           = Inr \<lceil>real_of_int (current_quantity st - alert_threshold st)
                  / real_of_int (consumption_rate st)\<rceil>"
proof -
  let ?p = "current_quantity st - alert_threshold st"
  obtain q where q: "truediv ?p (consumption_rate st) = Inr q"
    and c: "math_ceil q = - ((- ?p) div consumption_rate st)"
    using truediv_small [OF assms(3,4,1,2)] by blast
  have "\<lceil>real_of_int ?p / real_of_int (consumption_rate st)\<rceil>
          = - ((- ?p) div consumption_rate st)"
    by (rule ceiling_divide_eq_div)
  with c have "math_ceil q = \<lceil>real_of_int ?p / real_of_int (consumption_rate st)\<rceil>"
    by (simp only:)
  with q show ?thesis
    by (simp only: days_until_low_def sum.case)
qed

text \<open>
  Claim C4, as the code has it. For a stock record whose consumption rate and whose
  difference \<^verbatim>\<open>current_quantity - alert_threshold\<close> are below \<open>2 ^ 53\<close>: when the rate
  is positive and the quantity is above the threshold, \<^verbatim>\<open>days_until_low\<close> is the ceiling
  of the exact quotient, and one refill alert is generated, on the day that many days
  after today, provided that day is one the calendar has (no later than 9999-12-31;
  otherwise \<^verbatim>\<open>OverflowError\<close> is raised); when the rate is not positive or the quantity
  is not above the threshold, no refill alert is generated. A medication without stock
  gets no refill alert either.
\<close>

theorem refill_alert_exact:
  assumes "consumption_rate st < 2 ^ 53"
    and "current_quantity st - alert_threshold st < 2 ^ 53"
  shows "(0 < consumption_rate st \<and> alert_threshold st < current_quantity st \<longrightarrow>
            days_until_low st
              = Inr \<lceil>real_of_int (current_quantity st - alert_threshold st)
                       / real_of_int (consumption_rate st)\<rceil>
          \<and> refill_start now st
              = (if 1 \<le> day now + \<lceil>real_of_int (current_quantity st - alert_threshold st)
                                      / real_of_int (consumption_rate st)\<rceil>
                    \<and> day now + \<lceil>real_of_int (current_quantity st - alert_threshold st)
                                      / real_of_int (consumption_rate st)\<rceil> \<le> max_ordinal
                 then Inr (Some (combine
                   (day now + \<lceil>real_of_int (current_quantity st - alert_threshold st)
                                 / real_of_int (consumption_rate st)\<rceil>) 0))
                 else Inl OverflowError))
       \<and> (\<not> (0 < consumption_rate st \<and> alert_threshold st < current_quantity st) \<longrightarrow>
            refill_start now st = Inr None)
       \<and> (stock med = Some st \<and> medication_events ss now med = Inr es \<longrightarrow>
            filter (\<lambda>e. recurrence e = None) es
              = (if 0 < consumption_rate st \<and> alert_threshold st < current_quantity st
                 then [\<lparr>summary = ''Refill '' @ name med,
                        dtstart = combine
                          (day now + \<lceil>real_of_int (current_quantity st - alert_threshold st)
                                        / real_of_int (consumption_rate st)\<rceil>) 0,
                        recurrence = None\<rparr>]
                 else []))
       \<and> (stock med = None \<and> medication_events ss now med = Inr es \<longrightarrow>
            filter (\<lambda>e. recurrence e = None) es = [])"
proof -
  let ?c = "\<lceil>real_of_int (current_quantity st - alert_threshold st)
              / real_of_int (consumption_rate st)\<rceil>"
  let ?cond = "0 < consumption_rate st \<and> alert_threshold st < current_quantity st"
  let ?ok = "1 \<le> day now + ?c \<and> day now + ?c \<le> max_ordinal"
  have d: "days_until_low st = Inr ?c" if "?cond"
    using that assms by (intro days_until_low_small) simp_all
  have r1: "refill_start now st
              = (if ?ok then Inr (Some (combine (day now + ?c) 0)) else Inl OverflowError)"
    if "?cond"
    using that d by (simp add: refill_start_def add_days_def combine_def)
  have r2: "refill_start now st = Inr None" if "\<not> ?cond"
    using that by (auto simp: refill_start_def)
  have m: "filter (\<lambda>e. recurrence e = None) es
              = (if ?cond
                 then [\<lparr>summary = ''Refill '' @ name med, dtstart = combine (day now + ?c) 0,
                        recurrence = None\<rparr>]
                 else [])"
    if s: "stock med = Some st" and e: "medication_events ss now med = Inr es"
  proof (cases "?cond")
    case True
    with e s r1 show ?thesis
      by (auto simp: medication_events_def Let_def split: sum.splits if_splits)
  next
    case False
    with e s r2 show ?thesis
      by (auto simp: medication_events_def Let_def split: sum.splits)
  qed
  have n: "filter (\<lambda>e. recurrence e = None) es = []"
    if "stock med = None" "medication_events ss now med = Inr es"
    using that by (auto simp: medication_events_def Let_def split: sum.splits)
  from d r1 r2 m n show ?thesis by blast
qed

theorem refill_alert_exact_witness:
  "days_until_low \<lparr>current_quantity = 30, consumption_rate = 5, alert_threshold = 10\<rparr> = Inr 4
   \<and> refill_start \<lparr>day = 739252, usec = 0\<rparr>
       \<lparr>current_quantity = 30, consumption_rate = 5, alert_threshold = 10\<rparr>
     = Inr (Some \<lparr>day = 739256, usec = 0\<rparr>)
   \<and> refill_start \<lparr>day = 739252, usec = 0\<rparr>
       \<lparr>current_quantity = 10, consumption_rate = 5, alert_threshold = 10\<rparr>
     = Inr None"
  using
    refill_alert_exact
      [of "\<lparr>current_quantity = 30, consumption_rate = 5, alert_threshold = 10\<rparr>"
          "\<lparr>day = 739252, usec = 0\<rparr>"]
    refill_alert_exact
      [of "\<lparr>current_quantity = 10, consumption_rate = 5, alert_threshold = 10\<rparr>"
          "\<lparr>day = 739252, usec = 0\<rparr>"]
  by (simp add: combine_def max_ordinal_def)

text \<open>
  The claim as the specification words it, for every stock record and with exact
  arithmetic, fails outside those bounds. With a difference of \<open>2 ^ 53 + 1\<close> and a rate
  of \<open>2 ^ 53\<close> the float quotient is \<open>1.0\<close>, so \<^verbatim>\<open>days_until_low\<close> is 1 where the
  exact ceiling is 2. With a quantity of ten million and a rate of 1 the day of the alert
  is beyond the calendar, and with a quantity of \<open>2 ^ 1024\<close> the division itself
  overflows: in both cases \<^verbatim>\<open>OverflowError\<close> is raised and no alert is generated,
  although the rate is positive and the quantity is above the threshold.
\<close>

theorem days_until_low_counterexample:
  "days_until_low \<lparr>current_quantity = 9007199254740993,
      consumption_rate = 9007199254740992, alert_threshold = 0\<rparr> = Inr 1
   \<and> \<lceil>real_of_int (9007199254740993 - 0) / real_of_int 9007199254740992\<rceil> = 2
   \<and> refill_start \<lparr>day = 739252, usec = 0\<rparr>
       \<lparr>current_quantity = 10000000, consumption_rate = 1, alert_threshold = 0\<rparr>
     = Inl OverflowError
   \<and> refill_start \<lparr>day = 739252, usec = 0\<rparr>
       \<lparr>current_quantity = 2 ^ 1024, consumption_rate = 1, alert_threshold = 0\<rparr>
     = Inl OverflowError"
proof (intro conjI)
  show "days_until_low \<lparr>current_quantity = 9007199254740993,
      consumption_rate = 9007199254740992, alert_threshold = 0\<rparr> = Inr 1"
    by code_simp
  show "\<lceil>real_of_int (9007199254740993 - 0) / real_of_int 9007199254740992\<rceil> = 2"
    by simp
  show "refill_start \<lparr>day = 739252, usec = 0\<rparr>
       \<lparr>current_quantity = 10000000, consumption_rate = 1, alert_threshold = 0\<rparr>
     = Inl OverflowError"
    by code_simp
  show "refill_start \<lparr>day = 739252, usec = 0\<rparr>
       \<lparr>current_quantity = 2 ^ 1024, consumption_rate = 1, alert_threshold = 0\<rparr>
     = Inl OverflowError"
    by code_simp
qed

end
